theory Spec2Isabelle
  imports Complex_Main
begin

section \<open>Python values used by the face verification services\<close>

text \<open>
  Numbers are of type \<open>real\<close>. The functions of the first sections compute in the exact
  arithmetic of the reals; a later section gives the two comparison functions over an
  arbitrary arithmetic, of which IEEE double precision is one. Exceptions are values of type
  \<open>exn\<close>; every \<open>try/except Exception\<close> of the source is a case distinction on a sum.
\<close>

datatype exn =
    AttributeError | IndexError | KeyError string | ZeroDivisionError
  | ValueError | CvError | FileNotFoundError | UnidentifiedImageError | TypeError

text \<open>Pieces of a formatted string: literals and the interpolated values of an f-string.\<close>

datatype frag =
    Lit string
  | Fix2 real  \<comment> \<open>\<open>{x:.2f}\<close>\<close>
  | Fix4 real  \<comment> \<open>\<open>{x:.4f}\<close>\<close>
  | StrInt int
  | StrReal real
  | StrExn exn
  | StrOther  \<comment> \<open>\<open>str\<close> of a list or a dictionary, not spelled out\<close>

datatype pyval =
    PNone | PBool bool | PInt int | PNum real | PStr string
  | PNpBool bool  \<comment> \<open>a \<open>numpy.bool_\<close>, the result of comparing a \<open>numpy.float64\<close>\<close>
  | PMsg "frag list" | PList "pyval list" | PDict "(string \<times> pyval) list"

type_synonym pydict = "(string \<times> pyval) list"

text \<open>\<open>d[k]\<close> raises \<open>KeyError\<close> on a missing key; \<open>d.get(k, default)\<close> does not.\<close>

definition getitem :: "pydict \<Rightarrow> string \<Rightarrow> exn + pyval" where
  "getitem d k = (case map_of d k of None \<Rightarrow> Inl (KeyError k) | Some v \<Rightarrow> Inr v)"

text \<open>Subscripting a value that need not be a dictionary.\<close>

definition subscript :: "pyval \<Rightarrow> string \<Rightarrow> exn + pyval" where
  "subscript v k = (case v of PDict d \<Rightarrow> getitem d k | _ \<Rightarrow> Inl TypeError)"

definition dict_get :: "pydict \<Rightarrow> string \<Rightarrow> pyval \<Rightarrow> pyval" where
  "dict_get d k dflt = (case map_of d k of None \<Rightarrow> dflt | Some v \<Rightarrow> v)"

text \<open>Truthiness of the values that the routes test with \<open>if x\<close>.\<close>

fun truthy :: "pyval \<Rightarrow> bool" where
  "truthy PNone = False"
| "truthy (PBool b) = b"
| "truthy (PNpBool b) = b"
| "truthy (PInt i) = (i \<noteq> 0)"
| "truthy (PNum r) = (r \<noteq> 0)"
| "truthy (PStr s) = (s \<noteq> [])"
| "truthy (PMsg m) = (m \<noteq> [])"
| "truthy (PList l) = (l \<noteq> [])"
| "truthy (PDict d) = (d \<noteq> [])"

text \<open>The text that an f-string interpolates for a value.\<close>

fun fstr :: "pyval \<Rightarrow> frag list" where
  "fstr PNone = [Lit ''None'']"
| "fstr (PBool b) = [Lit (if b then ''True'' else ''False'')]"
| "fstr (PNpBool b) = [Lit (if b then ''True'' else ''False'')]"
| "fstr (PInt i) = [StrInt i]"
| "fstr (PNum r) = [StrReal r]"
| "fstr (PStr s) = [Lit s]"
| "fstr (PMsg m) = m"
| "fstr (PList l) = [StrOther]"
| "fstr (PDict d) = [StrOther]"

text \<open>
  \<open>jsonify\<close> serialises strings, numbers, Python booleans, \<open>None\<close>, lists and dictionaries; on
  a \<open>numpy.bool_\<close> it raises \<open>TypeError\<close>.
\<close>

fun json_serializable :: "pyval \<Rightarrow> bool" where
  "json_serializable (PNpBool b) = False"
| "json_serializable (PList l) = list_all json_serializable l"
| "json_serializable (PDict d) = list_all (\<lambda>kv. json_serializable (snd kv)) d"
| "json_serializable v = True"

definition jsonify :: "pydict \<Rightarrow> exn + pydict" where
  "jsonify d = (if json_serializable (PDict d) then Inr d else Inl TypeError)"

text \<open>
  \<open>round(x, n)\<close> in exact arithmetic: rounding to \<open>n\<close> decimals, ties to the even neighbour.
  On doubles the interpreter and numpy each compute their own approximation of it.
\<close>

definition round_half_even :: "real \<Rightarrow> int" where
  "round_half_even r =
     (let f = \<lfloor>r\<rfloor>; d = r - of_int f
      in if d < 1/2 then f else if d > 1/2 then f + 1 else if even f then f else f + 1)"

definition py_round :: "real \<Rightarrow> nat \<Rightarrow> real" where
  "py_round x n = of_int (round_half_even (x * 10 ^ n)) / 10 ^ n"

section \<open>The file system and the image libraries, as the services observe them\<close>

type_synonym rect = "int \<times> int \<times> int \<times> int"

text \<open>
  \<open>CascadeClassifier.detectMultiScale\<close> returns an array of rectangles, and the empty
  tuple \<open>()\<close> when it detects nothing (the binding converts an empty vector of rectangles to
  an empty tuple).
\<close>

datatype cv_rects = EmptyTuple | RectArray "rect list"

text \<open>
  A decoded image (\<open>cv2.imread\<close>) with what OpenCV and numpy compute from its pixels:
  the shape, \<open>np.mean(gray)\<close>, \<open>cv2.Laplacian(gray, CV_64F).var()\<close>, the cascade's
  detections with the fixed parameters 1.1 / 5 / (30, 30), and for a region
  \<open>gray[y:y+h, x:x+w]\<close> its 256-bin histogram, mean and standard deviation.
\<close>

record cv_image =
  img_width :: nat
  img_height :: nat
  gray_mean :: real
  gray_laplacian_var :: real
  detectMultiScale :: cv_rects
  region_calcHist :: "rect \<Rightarrow> real list"
  region_mean :: "rect \<Rightarrow> real"
  region_std :: "rect \<Rightarrow> real"

text \<open>
  An image loaded by \<open>face_recognition.load_image_file\<close>: the face locations found with a
  given model, and the encodings computed for a list of locations.
\<close>

record fr_image =
  face_locations :: "string \<Rightarrow> rect list"
  face_encodings :: "rect list \<Rightarrow> real list list"

record file_data =
  cv_decoded :: "cv_image option"  \<comment> \<open>\<open>None\<close>: \<open>cv2.imread\<close> cannot decode the file\<close>
  fr_decoded :: "fr_image option"  \<comment> \<open>\<open>None\<close>: \<open>load_image_file\<close> raises\<close>

datatype fentry = Missing | Present file_data

record env =
  fs :: "string \<Rightarrow> fentry"
  now_isoformat :: string  \<comment> \<open>\<open>datetime.now().isoformat()\<close>\<close>

definition path_exists :: "env \<Rightarrow> string \<Rightarrow> bool" where
  "path_exists e p = (case fs e p of Missing \<Rightarrow> False | Present _ \<Rightarrow> True)"

definition imread :: "env \<Rightarrow> string \<Rightarrow> cv_image option" where
  "imread e p = (case fs e p of Missing \<Rightarrow> None | Present d \<Rightarrow> cv_decoded d)"

definition load_image_file :: "env \<Rightarrow> string \<Rightarrow> exn + fr_image" where
  "load_image_file e p =
     (case fs e p of
        Missing \<Rightarrow> Inl FileNotFoundError
      | Present d \<Rightarrow> (case fr_decoded d of None \<Rightarrow> Inl UnidentifiedImageError | Some i \<Rightarrow> Inr i))"

section \<open>Results of the services\<close>

text \<open>The failure dictionary \<open>{"success": False, "message": ..., "error_code": ...}\<close>
  (\<open>"valid": False\<close> for the quality check).\<close>

record failure =
  message :: "frag list"
  error_code :: string

record quality_details =
  resolution :: "frag list"
  brightness :: real
  sharpness :: real

record quality_ok =
  q_message :: "frag list"
  details :: quality_details

text \<open>A successful detection; \<open>encodings\<close> is \<open>None\<close> when the dictionary has no such key.\<close>

record detection =
  face_count :: nat
  faces :: "rect list"
  encodings :: "real list list option"
  d_message :: "frag list"

record features =
  histogram :: "real list"
  mean_intensity :: real
  std_intensity :: real
  face_area :: int
  aspect_ratio :: real
  face_coords :: rect

text \<open>A successful extraction carries an \<open>"encoding"\<close> or a \<open>"features"\<close> key, and the location.\<close>

datatype extraction = EncodingResult "real list" rect | FeaturesResult features rect

record similarity_breakdown =
  histogram_correlation :: real
  intensity_similarity :: real
  ratio_similarity :: real
  size_similarity :: real

text \<open>
  A successful comparison. The keys that only one of the two services writes are options:
  \<open>face_distance\<close> (embedding), \<open>similarity_score\<close>, the breakdown and \<open>warning\<close> (heuristic).
\<close>

record comparison =
  c_result :: string
  is_match :: bool
  confidence :: real
  face_distance :: "real option"
  similarity_score :: "real option"
  tolerance_used :: real
  c_message :: "frag list"
  c_method :: string
  camera_image :: "string \<times> rect"
  id_card_image :: "string \<times> rect"
  breakdown :: "similarity_breakdown option"
  warning :: "string option"

record service =
  tolerance :: real
  model :: string
  FACE_RECOGNITION_AVAILABLE :: bool

text \<open>\<open>__init__(self, tolerance=0.6, model='hog')\<close>; the flag is set when the module is imported.\<close>

definition init :: "real option \<Rightarrow> string option \<Rightarrow> bool \<Rightarrow> service" where
  "init tol mdl avail =
     \<lparr>tolerance = (case tol of None \<Rightarrow> 6/10 | Some t \<Rightarrow> t),
      model = (case mdl of None \<Rightarrow> ''hog'' | Some m \<Rightarrow> m),
      FACE_RECOGNITION_AVAILABLE = avail\<rparr>"

definition FACE_RECOGNITION_TOLERANCE :: real where
  "FACE_RECOGNITION_TOLERANCE = 6/10"

definition FACE_DETECTION_MODEL :: string where
  "FACE_DETECTION_MODEL = ''hog''"

section \<open>Quality check\<close>

text \<open>\<open>validate_image_quality\<close>, the same text in both service classes.\<close>

definition validate_image_quality :: "env \<Rightarrow> string \<Rightarrow> failure + quality_ok" where
  "validate_image_quality e image_path =
     (case imread e image_path of
        None \<Rightarrow> Inl \<lparr>message = [Lit ''Could not read image file''],
                     error_code = ''IMAGE_READ_ERROR''\<rparr>
      | Some img \<Rightarrow>
          let height = img_height img; width = img_width img in
          if width < 100 \<or> height < 100 then
            Inl \<lparr>message = [Lit ''Image resolution too low: '', StrInt (int width), Lit ''x'',
                             StrInt (int height), Lit ''. Minimum 100x100 required''],
                 error_code = ''LOW_RESOLUTION''\<rparr>
          else
            let mean_brightness = gray_mean img in
            if mean_brightness < 30 then
              Inl \<lparr>message = [Lit ''Image is too dark for face recognition''],
                   error_code = ''TOO_DARK''\<rparr>
            else if mean_brightness > 225 then
              Inl \<lparr>message = [Lit ''Image is too bright for face recognition''],
                   error_code = ''TOO_BRIGHT''\<rparr>
            else
              let laplacian_var = gray_laplacian_var img in
              if laplacian_var < 100 then
                Inl \<lparr>message = [Lit ''Image appears to be blurry''],
                     error_code = ''BLURRY_IMAGE''\<rparr>
              else
                Inr \<lparr>q_message = [Lit ''Image quality is acceptable for face recognition''],
                     details = \<lparr>resolution = [StrInt (int width), Lit ''x'', StrInt (int height)],
                                brightness = py_round mean_brightness 2,
                                sharpness = py_round laplacian_var 2\<rparr>\<rparr>)"

section \<open>Face detection\<close>

text \<open>The failure built by an \<open>except Exception as e\<close> handler: \<open>f"<prefix>{str(e)}"\<close>.\<close>

definition except_failure :: "string \<Rightarrow> string \<Rightarrow> exn \<Rightarrow> failure" where
  "except_failure prefix code x = \<lparr>message = [Lit prefix, StrExn x], error_code = code\<rparr>"

text \<open>
  \<open>detect_faces_opencv\<close>, the same text in both service classes. \<open>len(faces)\<close> is defined
  on the empty tuple, \<open>faces.tolist()\<close> is not: it raises \<open>AttributeError\<close> inside the
  \<open>try\<close>.
\<close>

definition detect_faces_opencv :: "env \<Rightarrow> string \<Rightarrow> failure + detection" where
  "detect_faces_opencv e image_path =
     (case imread e image_path of
        None \<Rightarrow> Inl \<lparr>message = [Lit ''Could not read image file''],
                     error_code = ''IMAGE_READ_ERROR''\<rparr>
      | Some img \<Rightarrow>
          (case detectMultiScale img of
             EmptyTuple \<Rightarrow>
               Inl (except_failure ''Face detection failed: '' ''OPENCV_DETECTION_ERROR''
                      AttributeError)
           | RectArray rs \<Rightarrow>
               Inr \<lparr>face_count = length rs, faces = rs, encodings = None,
                    d_message = [Lit ''Detected '', StrInt (int (length rs)),
                                 Lit '' face(s) using OpenCV'']\<rparr>))"

definition detect_faces_dlib :: "service \<Rightarrow> env \<Rightarrow> string \<Rightarrow> failure + detection" where
  "detect_faces_dlib s e image_path =
     (if \<not> FACE_RECOGNITION_AVAILABLE s then detect_faces_opencv e image_path
      else
        (case load_image_file e image_path of
           Inl x \<Rightarrow> Inl (except_failure ''Face detection failed: '' ''DLIB_DETECTION_ERROR'' x)
         | Inr img \<Rightarrow>
             let locs = face_locations img (model s); n = length locs in
             if n = 0 then
               Inr \<lparr>face_count = 0, faces = [], encodings = Some [],
                    d_message = [Lit ''No faces detected in image'']\<rparr>
             else
               Inr \<lparr>face_count = n, faces = locs, encodings = Some (face_encodings img locs),
                    d_message = [Lit ''Detected '', StrInt (int n),
                                 Lit '' face(s) using face_recognition library'']\<rparr>))"

section \<open>Representation extraction\<close>

definition no_face_failure :: failure where
  "no_face_failure =
     \<lparr>message = [Lit ''No face detected in image''], error_code = ''NO_FACE_DETECTED''\<rparr>"

definition multiple_faces_failure :: "nat \<Rightarrow> failure" where
  "multiple_faces_failure n =
     \<lparr>message = [Lit ''Multiple faces detected ('', StrInt (int n),
                  Lit ''). Please use image with single face''],
      error_code = ''MULTIPLE_FACES_DETECTED''\<rparr>"

definition file_not_found_failure :: failure where
  "file_not_found_failure =
     \<lparr>message = [Lit ''Image file not found''], error_code = ''FILE_NOT_FOUND''\<rparr>"

text \<open>\<open>FaceVerificationServiceFallback.extract_face_features\<close>. \<open>w / h\<close> divides two
  Python integers and raises on \<open>h = 0\<close>.\<close>

definition extract_face_features :: "env \<Rightarrow> string \<Rightarrow> failure + extraction" where
  "extract_face_features e image_path =
     (let handler = except_failure ''Face feature extraction failed: ''
                      ''FEATURE_EXTRACTION_ERROR'' in
      if \<not> path_exists e image_path then Inl file_not_found_failure
      else
        (case detect_faces_opencv e image_path of
           Inl f \<Rightarrow> Inl f
         | Inr d \<Rightarrow>
             if face_count d = 0 then Inl no_face_failure
             else if face_count d > 1 then Inl (multiple_faces_failure (face_count d))
             else
               (case imread e image_path of
                  None \<Rightarrow> Inl (handler CvError)
                | Some img \<Rightarrow>
                    (case faces d of
                       [] \<Rightarrow> Inl (handler IndexError)
                     | (x, y, w, h) # _ \<Rightarrow>
                         if h = 0 then Inl (handler ZeroDivisionError)
                         else
                           Inr (FeaturesResult
                                  \<lparr>histogram = take 50 (region_calcHist img (x, y, w, h)),
                                   mean_intensity = region_mean img (x, y, w, h),
                                   std_intensity = region_std img (x, y, w, h),
                                   face_area = w * h,
                                   aspect_ratio = real_of_int w / real_of_int h,
                                   face_coords = (x, y, w, h)\<rparr>
                                  (x, y, w, h))))))"

text \<open>\<open>FaceVerificationService.extract_face_encoding\<close>.\<close>

definition extract_face_encoding :: "service \<Rightarrow> env \<Rightarrow> string \<Rightarrow> failure + extraction" where
  "extract_face_encoding s e image_path =
     (if \<not> FACE_RECOGNITION_AVAILABLE s then extract_face_features e image_path
      else
        let handler = except_failure ''Face encoding extraction failed: ''
                        ''ENCODING_EXTRACTION_ERROR'' in
        if \<not> path_exists e image_path then Inl file_not_found_failure
        else
          (case detect_faces_dlib s e image_path of
             Inl f \<Rightarrow> Inl f
           | Inr d \<Rightarrow>
               if face_count d = 0 then Inl no_face_failure
               else if face_count d > 1 then Inl (multiple_faces_failure (face_count d))
               else
                 (case encodings d of
                    None \<Rightarrow> Inl (handler (KeyError ''encodings''))
                  | Some [] \<Rightarrow> Inl (handler IndexError)
                  | Some (enc # _) \<Rightarrow>
                      (case faces d of
                         [] \<Rightarrow> Inl (handler IndexError)
                       | loc # _ \<Rightarrow> Inr (EncodingResult enc loc)))))"

section \<open>Comparison\<close>

text \<open>
  \<open>face_recognition.face_distance([a], b)[0]\<close> is
  \<open>np.linalg.norm(np.array([a]) - b, axis=1)[0]\<close>: the subtraction broadcasts a vector of
  length one and raises on any other mismatch of lengths.
\<close>

definition np_sub :: "real list \<Rightarrow> real list \<Rightarrow> exn + real list" where
  "np_sub a b =
     (if length a = length b then Inr (map2 (-) a b)
      else
        (case b of
           [y] \<Rightarrow> Inr (map (\<lambda>x. x - y) a)
         | _ \<Rightarrow> (case a of [x] \<Rightarrow> Inr (map (\<lambda>y. x - y) b) | _ \<Rightarrow> Inl ValueError)))"

text \<open>The norm in exact arithmetic: the square root of the sum of the squares.\<close>

definition np_norm :: "real list \<Rightarrow> real" where
  "np_norm v = sqrt (sum_list (map (\<lambda>x. x * x) v))"

definition fr_face_distance :: "real list \<Rightarrow> real list \<Rightarrow> exn + real" where
  "fr_face_distance a b = (case np_sub a b of Inl x \<Rightarrow> Inl x | Inr v \<Rightarrow> Inr (np_norm v))"

text \<open>
  \<open>cv2.compareHist(h1, h2, cv2.HISTCMP_CORREL)\<close>: the histograms must have the same size;
  the result is 1 when the product of the two variances is not above \<open>DBL_EPSILON\<close>.
\<close>

definition DBL_EPSILON :: real where
  "DBL_EPSILON = 1 / 2 ^ 52"

definition compareHist_correl :: "real list \<Rightarrow> real list \<Rightarrow> exn + real" where
  "compareHist_correl h1 h2 =
     (if length h1 \<noteq> length h2 then Inl CvError
      else
        let s1 = sum_list h1; s2 = sum_list h2;
            s11 = sum_list (map2 (*) h1 h1);
            s12 = sum_list (map2 (*) h1 h2);
            s22 = sum_list (map2 (*) h2 h2);
            scale = 1 / real (length h1);
            num = s12 - s1 * s2 * scale;
            denom2 = (s11 - s1 * s1 * scale) * (s22 - s2 * s2 * scale)
        in Inr (if \<bar>denom2\<bar> > DBL_EPSILON then num / sqrt denom2 else 1))"

text \<open>The failure of a comparison whose first or second extraction failed.\<close>

definition camera_failure :: "failure \<Rightarrow> failure" where
  "camera_failure f =
     \<lparr>message = Lit ''Live camera image: '' # message f,
      error_code = ''CAMERA_IMAGE_'' @ error_code f\<rparr>"

definition id_card_failure :: "failure \<Rightarrow> failure" where
  "id_card_failure f =
     \<lparr>message = Lit ''ID card image: '' # message f,
      error_code = ''ID_CARD_IMAGE_'' @ error_code f\<rparr>"

text \<open>\<open>FaceVerificationServiceFallback.compare_faces_basic\<close>, in exact arithmetic.\<close>

definition compare_faces_basic :: "env \<Rightarrow> string \<Rightarrow> string \<Rightarrow> failure + comparison" where
  "compare_faces_basic e image1_path image2_path =
     (let handler = except_failure ''Face comparison failed: '' ''COMPARISON_ERROR'';
          features1_result = extract_face_features e image1_path;
          features2_result = extract_face_features e image2_path in
      case features1_result of
        Inl f1 \<Rightarrow> Inl (camera_failure f1)
      | Inr r1 \<Rightarrow>
          (case features2_result of
             Inl f2 \<Rightarrow> Inl (id_card_failure f2)
           | Inr r2 \<Rightarrow>
               (case r1 of
                  EncodingResult _ _ \<Rightarrow> Inl (handler (KeyError ''features''))
                | FeaturesResult features1 loc1 \<Rightarrow>
                    (case r2 of
                       EncodingResult _ _ \<Rightarrow> Inl (handler (KeyError ''features''))
                     | FeaturesResult features2 loc2 \<Rightarrow>
                         (case compareHist_correl (histogram features1) (histogram features2) of
                            Inl x \<Rightarrow> Inl (handler x)
                          | Inr hist_correlation \<Rightarrow>
                              let intensity_diff =
                                    \<bar>mean_intensity features1 - mean_intensity features2\<bar>;
                                  intensity_sim = max 0 (1 - intensity_diff / 255);
                                  ratio_diff = \<bar>aspect_ratio features1 - aspect_ratio features2\<bar>;
                                  ratio_sim = max 0 (1 - ratio_diff);
                                  area1 = face_area features1;
                                  area2 = face_area features2 in
                              if max area1 area2 = 0 then Inl (handler ZeroDivisionError)
                              else
                                let size_ratio =
                                      real_of_int (min area1 area2) / real_of_int (max area1 area2);
                                    combined_similarity =
                                      hist_correlation * (4/10) + intensity_sim * (2/10)
                                      + ratio_sim * (2/10) + size_ratio * (2/10);
                                    conf = max 0 (min 100 (combined_similarity * 100));
                                    basic_threshold = 4/10;
                                    matched = (combined_similarity \<ge> basic_threshold) in
                                Inr \<lparr>c_result = (if matched then ''Verified'' else ''Not Verified''),
                                     is_match = matched,
                                     confidence = py_round conf 2,
                                     face_distance = None,
                                     similarity_score = Some (py_round combined_similarity 4),
                                     tolerance_used = basic_threshold,
                                     c_message =
                                       (if matched then
                                          [Lit ''Faces appear to match with '', Fix2 conf,
                                           Lit ''% confidence (basic method)'']
                                        else
                                          [Lit ''Faces do not appear to match. Confidence: '',
                                           Fix2 conf, Lit ''% (basic method)'']),
                                     c_method = ''Basic OpenCV comparison'',
                                     camera_image = (image1_path, loc1),
                                     id_card_image = (image2_path, loc2),
                                     breakdown =
                                       Some \<lparr>histogram_correlation = py_round hist_correlation 4,
                                             intensity_similarity = py_round intensity_sim 4,
                                             ratio_similarity = py_round ratio_sim 4,
                                             size_similarity = py_round size_ratio 4\<rparr>,
                                     warning = Some ''This is a basic comparison method. For better accuracy, install face_recognition library.''\<rparr>)))))"

text \<open>\<open>FaceVerificationService.compare_faces\<close>, in exact arithmetic.\<close>

definition compare_faces :: "service \<Rightarrow> env \<Rightarrow> string \<Rightarrow> string \<Rightarrow> failure + comparison" where
  "compare_faces s e image1_path image2_path =
     (if \<not> FACE_RECOGNITION_AVAILABLE s then compare_faces_basic e image1_path image2_path
      else
        let handler = except_failure ''Face comparison failed: '' ''COMPARISON_ERROR'';
            encoding1_result = extract_face_encoding s e image1_path;
            encoding2_result = extract_face_encoding s e image2_path in
        case encoding1_result of
          Inl f1 \<Rightarrow> Inl (camera_failure f1)
        | Inr r1 \<Rightarrow>
            (case encoding2_result of
               Inl f2 \<Rightarrow> Inl (id_card_failure f2)
             | Inr r2 \<Rightarrow>
                 (case r1 of
                    FeaturesResult _ _ \<Rightarrow> Inl (handler (KeyError ''encoding''))
                  | EncodingResult encoding1 loc1 \<Rightarrow>
                      (case r2 of
                         FeaturesResult _ _ \<Rightarrow> Inl (handler (KeyError ''encoding''))
                       | EncodingResult encoding2 loc2 \<Rightarrow>
                           (case fr_face_distance encoding1 encoding2 of
                              Inl x \<Rightarrow> Inl (handler x)
                            | Inr distance \<Rightarrow>
                                let conf = max 0 ((1 - distance) * 100);
                                    matched = (distance \<le> tolerance s) in
                                Inr \<lparr>c_result = (if matched then ''Verified'' else ''Not Verified''),
                                     is_match = matched,
                                     confidence = py_round conf 2,
                                     face_distance = Some (py_round distance 4),
                                     similarity_score = None,
                                     tolerance_used = tolerance s,
                                     c_message =
                                       (if matched then
                                          [Lit ''Faces match with '', Fix2 conf, Lit ''% confidence'']
                                        else
                                          [Lit ''Faces do not match. Confidence: '', Fix2 conf,
                                           Lit ''%'']),
                                     c_method = ''Advanced face_recognition library'',
                                     camera_image = (image1_path, loc1),
                                     id_card_image = (image2_path, loc2),
                                     breakdown = None,
                                     warning = None\<rparr>)))))"

section \<open>Identity verification\<close>

text \<open>The dictionary returned when a verification fails.\<close>

definition verification_failed :: "failure \<Rightarrow> pydict option \<Rightarrow> pydict" where
  "verification_failed f student_details =
     [(''success'', PBool False),
      (''result'', PStr ''Verification Failed''),
      (''confidence'', PInt 0),
      (''message'', PMsg (message f)),
      (''error_code'', PStr (error_code f)),
      (''student_details'', PDict (case student_details of None \<Rightarrow> [] | Some d \<Rightarrow> d))]"

definition verification_error :: "exn \<Rightarrow> pydict option \<Rightarrow> pydict" where
  "verification_error x student_details =
     verification_failed
       (except_failure ''Identity verification failed: '' ''VERIFICATION_ERROR'' x) student_details"

text \<open>\<open>FaceVerificationServiceFallback.verify_identity\<close>.\<close>

definition fallback_recommendation :: "real \<Rightarrow> string" where
  "fallback_recommendation c =
     (if c \<ge> 70 then ''Moderate confidence match (basic method)''
      else if c \<ge> 50 then ''Low confidence match (basic method)''
      else ''Very low confidence - manual review required'')"

definition fallback_verify_identity ::
    "env \<Rightarrow> string \<Rightarrow> string \<Rightarrow> pydict option \<Rightarrow> pydict" where
  "fallback_verify_identity e camera_image_path id_card_image_path student_details =
     (case compare_faces_basic e camera_image_path id_card_image_path of
        Inl f \<Rightarrow> verification_failed f student_details
      | Inr c \<Rightarrow>
          (case similarity_score c of
             None \<Rightarrow> verification_error (KeyError ''similarity_score'') student_details
           | Some score \<Rightarrow>
               (case breakdown c of
                  None \<Rightarrow> verification_error (KeyError ''similarity_breakdown'') student_details
                | Some b \<Rightarrow>
                    [(''success'', PBool True),
                     (''result'', PStr (c_result c)),
                     (''is_match'', PBool (is_match c)),
                     (''confidence'', PNum (confidence c)),
                     (''similarity_score'', PNum score),
                     (''message'', PMsg (c_message c)),
                     (''method'', PStr (c_method c)),
                     (''warning'', PStr (case warning c of None \<Rightarrow> [] | Some w \<Rightarrow> w)),
                     (''student_details'',
                        PDict (case student_details of None \<Rightarrow> [] | Some d \<Rightarrow> d)),
                     (''verification_details'',
                        PDict [(''tolerance_used'', PNum (tolerance_used c)),
                               (''camera_image'', PStr camera_image_path),
                               (''id_card_image'', PStr id_card_image_path),
                               (''timestamp'', PStr (now_isoformat e)),
                               (''similarity_breakdown'',
                                  PDict [(''histogram_correlation'', PNum (histogram_correlation b)),
                                         (''intensity_similarity'', PNum (intensity_similarity b)),
                                         (''ratio_similarity'', PNum (ratio_similarity b)),
                                         (''size_similarity'', PNum (size_similarity b))])]),
                     (''recommendation'', PStr (fallback_recommendation (confidence c)))])))"

text \<open>
  \<open>FaceVerificationService.verify_identity\<close>. Its \<open>is_match\<close> is the \<open>numpy.bool_\<close> that
  \<open>face_distance <= self.tolerance\<close> yields in \<open>compare_faces\<close>.
\<close>

definition recommendation :: "real \<Rightarrow> string" where
  "recommendation c =
     (if c \<ge> 80 then ''High confidence match''
      else if c \<ge> 60 then ''Moderate confidence match''
      else ''Low confidence - manual review recommended'')"

definition verify_identity ::
    "service \<Rightarrow> env \<Rightarrow> string \<Rightarrow> string \<Rightarrow> pydict option \<Rightarrow> pydict" where
  "verify_identity s e camera_image_path id_card_image_path student_details =
     (if \<not> FACE_RECOGNITION_AVAILABLE s then
        fallback_verify_identity e camera_image_path id_card_image_path student_details
      else
        (case compare_faces s e camera_image_path id_card_image_path of
           Inl f \<Rightarrow> verification_failed f student_details
         | Inr c \<Rightarrow>
             [(''success'', PBool True),
              (''result'', PStr (c_result c)),
              (''is_match'', PNpBool (is_match c)),
              (''confidence'', PNum (confidence c)),
              (''face_distance'', (case face_distance c of None \<Rightarrow> PInt 0 | Some d \<Rightarrow> PNum d)),
              (''message'', PMsg (c_message c)),
              (''method'', PStr (c_method c)),
              (''student_details'', PDict (case student_details of None \<Rightarrow> [] | Some d \<Rightarrow> d)),
              (''verification_details'',
                 PDict [(''tolerance_used'', PNum (tolerance_used c)),
                        (''camera_image'', PStr camera_image_path),
                        (''id_card_image'', PStr id_card_image_path),
                        (''timestamp'', PStr (now_isoformat e))]),
              (''recommendation'', PStr (recommendation (confidence c)))]))"

section \<open>The \<open>/verify\<close> route\<close>

record verify_request =
  camera_image_path :: "string option"
  id_card_image_path :: "string option"
  student_details :: "pydict option"

text \<open>The service calls that the route makes, in the order in which it makes them.\<close>

datatype call = ValidateImageQuality string | VerifyIdentity string string

type_synonym response = "pydict \<times> nat"

definition error_response :: "frag list \<Rightarrow> string \<Rightarrow> pydict" where
  "error_response msg code =
     [(''status'', PStr ''error''), (''message'', PMsg msg), (''error_code'', PStr code)]"

definition route_service :: "bool \<Rightarrow> service" where
  "route_service avail = init (Some FACE_RECOGNITION_TOLERANCE) (Some FACE_DETECTION_MODEL) avail"

definition bind_exn :: "exn + 'a \<Rightarrow> ('a \<Rightarrow> exn + 'b) \<Rightarrow> exn + 'b" where
  "bind_exn m f = (case m of Inl x \<Rightarrow> Inl x | Inr v \<Rightarrow> f v)"

definition quality_details_val :: "failure + quality_ok \<Rightarrow> pyval" where
  "quality_details_val q =
     (case q of
        Inl _ \<Rightarrow> PNone
      | Inr ok \<Rightarrow> PDict [(''resolution'', PMsg (resolution (details ok))),
                          (''brightness'', PNum (brightness (details ok))),
                          (''sharpness'', PNum (sharpness (details ok)))])"

text \<open>
  The body of the success branch: every subscript may raise \<open>KeyError\<close>, and \<open>jsonify\<close> may
  raise \<open>TypeError\<close> on what the service returned. The other responses of the route hold
  strings, lists of strings and the JSON of the request only.
\<close>

definition success_response ::
    "pydict \<Rightarrow> pydict \<Rightarrow> string \<Rightarrow> string \<Rightarrow> failure + quality_ok \<Rightarrow> failure + quality_ok
       \<Rightarrow> exn + response" where
  "success_response vr sd camera_path id_path camera_quality id_card_quality =
     bind_exn (getitem vr ''result'') (\<lambda>res.
     bind_exn (getitem vr ''confidence'') (\<lambda>conf.
     bind_exn (getitem vr ''is_match'') (\<lambda>matched.
     bind_exn (getitem vr ''face_distance'') (\<lambda>fd.
     bind_exn (getitem vr ''verification_details'') (\<lambda>vd.
     bind_exn (subscript vd ''tolerance_used'') (\<lambda>tol.
     bind_exn (subscript vd ''timestamp'') (\<lambda>ts.
     bind_exn (getitem vr ''message'') (\<lambda>msg.
     bind_exn
       (jsonify
          [(''status'', PStr ''success''),
             (''message'', msg),
             (''data'',
                PDict [(''result'', res),
                       (''confidence'', PMsg (fstr conf @ [Lit ''%''])),
                       (''student_details'',
                          PDict [(''name'', dict_get sd ''name'' (PStr [])),
                                 (''register_number'', dict_get sd ''register_number'' (PStr [])),
                                 (''department'', dict_get sd ''department'' (PStr [])),
                                 (''college'', dict_get sd ''college'' (PStr [])),
                                 (''year'', dict_get sd ''year'' (PStr [])),
                                 (''course'', dict_get sd ''course'' (PStr []))]),
                       (''verification_details'',
                          PDict [(''is_match'', matched),
                                 (''face_distance'', fd),
                                 (''tolerance_used'', tol),
                                 (''recommendation'', dict_get vr ''recommendation'' (PStr [])),
                                 (''timestamp'', ts)]),
                       (''image_info'',
                          PDict [(''camera_image'', PStr camera_path),
                                 (''id_card_image'', PStr id_path),
                                 (''camera_quality'', quality_details_val camera_quality),
                                 (''id_card_quality'', quality_details_val id_card_quality)])])])
       (\<lambda>body. Inr (body, 200))))))))))"

definition verify_route :: "bool \<Rightarrow> env \<Rightarrow> verify_request option \<Rightarrow> response \<times> call list" where
  "verify_route avail e data =
     (let handler = (\<lambda>x. (error_response [Lit ''Identity verification failed: '', StrExn x]
                              ''VERIFICATION_EXCEPTION'', 500)) in
      case data of
        None \<Rightarrow> ((error_response [Lit ''No JSON data provided''] ''NO_DATA'', 400), [])
      | Some d \<Rightarrow>
          if camera_image_path d = None \<and> id_card_image_path d = None \<and> student_details d = None
          then ((error_response [Lit ''No JSON data provided''] ''NO_DATA'', 400), [])
          else
            (case camera_image_path d of
               None \<Rightarrow> ((error_response [Lit ''camera_image_path is required'']
                            ''MISSING_CAMERA_IMAGE'', 400), [])
             | Some cam \<Rightarrow>
                 if cam = [] then ((error_response [Lit ''camera_image_path is required'']
                                      ''MISSING_CAMERA_IMAGE'', 400), [])
                 else
                   (case id_card_image_path d of
                      None \<Rightarrow> ((error_response [Lit ''id_card_image_path is required'']
                                   ''MISSING_ID_CARD_IMAGE'', 400), [])
                    | Some idc \<Rightarrow>
                        if idc = [] then ((error_response [Lit ''id_card_image_path is required'']
                                             ''MISSING_ID_CARD_IMAGE'', 400), [])
                        else if \<not> path_exists e cam then
                          ((error_response [Lit ''Camera image not found: '', Lit cam]
                              ''CAMERA_IMAGE_NOT_FOUND'', 400), [])
                        else if \<not> path_exists e idc then
                          ((error_response [Lit ''ID card image not found: '', Lit idc]
                              ''ID_CARD_IMAGE_NOT_FOUND'', 400), [])
                        else
                          let sd = (case student_details d of None \<Rightarrow> [] | Some x \<Rightarrow> x);
                              camera_quality = validate_image_quality e cam;
                              id_card_quality = validate_image_quality e idc;
                              checks = [ValidateImageQuality cam, ValidateImageQuality idc];
                              quality_issues =
                                (case camera_quality of
                                   Inl f \<Rightarrow> [PMsg (Lit ''Camera image: '' # message f)]
                                 | Inr _ \<Rightarrow> [])
                                @ (case id_card_quality of
                                     Inl f \<Rightarrow> [PMsg (Lit ''ID card image: '' # message f)]
                                   | Inr _ \<Rightarrow> []) in
                          if quality_issues \<noteq> [] then
                            ((error_response [Lit ''Image quality issues detected'']
                                ''POOR_IMAGE_QUALITY''
                              @ [(''quality_issues'', PList quality_issues),
                                 (''suggestions'',
                                    PList [PStr ''Ensure images are well-lit and clear'',
                                           PStr ''Avoid blurry or low-resolution images'',
                                           PStr ''Retake photos if necessary''])],
                              400), checks)
                          else
                            let vr = verify_identity (route_service avail) e cam idc (Some sd);
                                calls = checks @ [VerifyIdentity cam idc] in
                            (case getitem vr ''success'' of
                               Inl x \<Rightarrow> (handler x, calls)
                             | Inr ok \<Rightarrow>
                                 if truthy ok then
                                   (case success_response vr sd cam idc camera_quality
                                           id_card_quality of
                                      Inl x \<Rightarrow> (handler x, calls)
                                    | Inr r \<Rightarrow> (r, calls))
                                 else
                                   (case getitem vr ''message'' of
                                      Inl x \<Rightarrow> (handler x, calls)
                                    | Inr msg \<Rightarrow>
                                        (([(''status'', PStr ''error''),
                                           (''message'', msg),
                                           (''error_code'', dict_get vr ''error_code'' PNone),
                                           (''data'',
                                              PDict [(''result'', PStr ''Verification Failed''),
                                                     (''confidence'', PStr ''0%''),
                                                     (''student_details'', PDict sd)])],
                                          400), calls))))))"

section \<open>The comparison in the arithmetic of the machine\<close>

text \<open>
  The services compute with IEEE double precision numbers, and every operation rounds. A
  double is a real number, so the values stay of type \<open>real\<close>; what changes from one
  arithmetic to another is the result of each operation. The record \<open>arith\<close> names the
  operations that the two comparison functions use:
  \<^item> \<open>fl\<close>: the double that a decimal literal such as \<open>0.4\<close> denotes;
  \<^item> \<open>fl_add\<close>, \<open>fl_sub\<close>, \<open>fl_mul\<close>, \<open>fl_div\<close>: \<open>+\<close>, \<open>-\<close>, \<open>*\<close>, \<open>/\<close> on doubles;
  \<^item> \<open>np_linalg_norm\<close>: \<open>np.linalg.norm\<close> of a vector;
  \<^item> \<open>np_round\<close>: \<open>round(x, n)\<close> on a \<open>numpy.float64\<close>;
  \<^item> \<open>builtin_round\<close>: \<open>round(x, n)\<close> on a Python \<open>float\<close>;
  \<^item> \<open>cv_compareHist\<close>: \<open>cv2.compareHist(h1.astype(np.float32), h2.astype(np.float32),
    cv2.HISTCMP_CORREL)\<close> on two arrays of the same size.

  Comparisons, \<open>abs\<close>, \<open>min\<close> and \<open>max\<close> are exact on doubles, and so are the literals
  \<open>0\<close>, \<open>1\<close>, \<open>100\<close> and \<open>255.0\<close>. The functions of this section are the comparison functions
  of the two services with each arithmetic operation taken from the record; the functions
  \<open>compare_faces\<close> and \<open>compare_faces_basic\<close> above are their instance at the exact arithmetic
  of the reals.
\<close>

record arith =
  fl :: "real \<Rightarrow> real"
  fl_add :: "real \<Rightarrow> real \<Rightarrow> real"
  fl_sub :: "real \<Rightarrow> real \<Rightarrow> real"
  fl_mul :: "real \<Rightarrow> real \<Rightarrow> real"
  fl_div :: "real \<Rightarrow> real \<Rightarrow> real"
  np_linalg_norm :: "real list \<Rightarrow> real"
  np_round :: "real \<Rightarrow> nat \<Rightarrow> real"
  builtin_round :: "real \<Rightarrow> nat \<Rightarrow> real"
  cv_compareHist :: "real list \<Rightarrow> real list \<Rightarrow> real"

text \<open>The correlation of \<open>compareHist_correl\<close> for two arrays of the same size.\<close>

definition correl_exact :: "real list \<Rightarrow> real list \<Rightarrow> real" where
  "correl_exact h1 h2 =
     (let s1 = sum_list h1; s2 = sum_list h2;
          s11 = sum_list (map2 (*) h1 h1);
          s12 = sum_list (map2 (*) h1 h2);
          s22 = sum_list (map2 (*) h2 h2);
          scale = 1 / real (length h1);
          num = s12 - s1 * s2 * scale;
          denom2 = (s11 - s1 * s1 * scale) * (s22 - s2 * s2 * scale)
      in if \<bar>denom2\<bar> > DBL_EPSILON then num / sqrt denom2 else 1)"

definition exact_arith :: arith where
  "exact_arith =
     \<lparr>fl = (\<lambda>x. x), fl_add = (+), fl_sub = (-), fl_mul = (*), fl_div = (/),
      np_linalg_norm = np_norm, np_round = py_round, builtin_round = py_round,
      cv_compareHist = correl_exact\<rparr>"

text \<open>\<open>__init__(self, tolerance=0.6, model='hog')\<close>, the default being the double \<open>0.6\<close>.\<close>

definition init_fp :: "arith \<Rightarrow> real option \<Rightarrow> string option \<Rightarrow> bool \<Rightarrow> service" where
  "init_fp A tol mdl avail =
     \<lparr>tolerance = (case tol of None \<Rightarrow> fl A (6/10) | Some t \<Rightarrow> t),
      model = (case mdl of None \<Rightarrow> ''hog'' | Some m \<Rightarrow> m),
      FACE_RECOGNITION_AVAILABLE = avail\<rparr>"

text \<open>\<open>extract_face_features\<close>: its one arithmetic operation is the division \<open>w / h\<close>.\<close>

definition extract_face_features_fp :: "arith \<Rightarrow> env \<Rightarrow> string \<Rightarrow> failure + extraction" where
  "extract_face_features_fp A e image_path =
     (let handler = except_failure ''Face feature extraction failed: ''
                      ''FEATURE_EXTRACTION_ERROR'' in
      if \<not> path_exists e image_path then Inl file_not_found_failure
      else
        (case detect_faces_opencv e image_path of
           Inl f \<Rightarrow> Inl f
         | Inr d \<Rightarrow>
             if face_count d = 0 then Inl no_face_failure
             else if face_count d > 1 then Inl (multiple_faces_failure (face_count d))
             else
               (case imread e image_path of
                  None \<Rightarrow> Inl (handler CvError)
                | Some img \<Rightarrow>
                    (case faces d of
                       [] \<Rightarrow> Inl (handler IndexError)
                     | (x, y, w, h) # _ \<Rightarrow>
                         if h = 0 then Inl (handler ZeroDivisionError)
                         else
                           Inr (FeaturesResult
                                  \<lparr>histogram = take 50 (region_calcHist img (x, y, w, h)),
                                   mean_intensity = region_mean img (x, y, w, h),
                                   std_intensity = region_std img (x, y, w, h),
                                   face_area = w * h,
                                   aspect_ratio = fl_div A (real_of_int w) (real_of_int h),
                                   face_coords = (x, y, w, h)\<rparr>
                                  (x, y, w, h))))))"

definition np_sub_fp :: "arith \<Rightarrow> real list \<Rightarrow> real list \<Rightarrow> exn + real list" where
  "np_sub_fp A a b =
     (if length a = length b then Inr (map2 (fl_sub A) a b)
      else
        (case b of
           [y] \<Rightarrow> Inr (map (\<lambda>x. fl_sub A x y) a)
         | _ \<Rightarrow> (case a of [x] \<Rightarrow> Inr (map (\<lambda>y. fl_sub A x y) b) | _ \<Rightarrow> Inl ValueError)))"

definition fr_face_distance_fp :: "arith \<Rightarrow> real list \<Rightarrow> real list \<Rightarrow> exn + real" where
  "fr_face_distance_fp A a b =
     (case np_sub_fp A a b of Inl x \<Rightarrow> Inl x | Inr v \<Rightarrow> Inr (np_linalg_norm A v))"

definition compareHist_correl_fp :: "arith \<Rightarrow> real list \<Rightarrow> real list \<Rightarrow> exn + real" where
  "compareHist_correl_fp A h1 h2 =
     (if length h1 \<noteq> length h2 then Inl CvError else Inr (cv_compareHist A h1 h2))"

text \<open>\<open>FaceVerificationServiceFallback.compare_faces_basic\<close>.\<close>

definition compare_faces_basic_fp ::
    "arith \<Rightarrow> env \<Rightarrow> string \<Rightarrow> string \<Rightarrow> failure + comparison" where
  "compare_faces_basic_fp A e image1_path image2_path =
     (let handler = except_failure ''Face comparison failed: '' ''COMPARISON_ERROR'';
          features1_result = extract_face_features_fp A e image1_path;
          features2_result = extract_face_features_fp A e image2_path in
      case features1_result of
        Inl f1 \<Rightarrow> Inl (camera_failure f1)
      | Inr r1 \<Rightarrow>
          (case features2_result of
             Inl f2 \<Rightarrow> Inl (id_card_failure f2)
           | Inr r2 \<Rightarrow>
               (case r1 of
                  EncodingResult _ _ \<Rightarrow> Inl (handler (KeyError ''features''))
                | FeaturesResult features1 loc1 \<Rightarrow>
                    (case r2 of
                       EncodingResult _ _ \<Rightarrow> Inl (handler (KeyError ''features''))
                     | FeaturesResult features2 loc2 \<Rightarrow>
                         (case compareHist_correl_fp A (histogram features1)
                                 (histogram features2) of
                            Inl x \<Rightarrow> Inl (handler x)
                          | Inr hist_correlation \<Rightarrow>
                              let intensity_diff =
                                    \<bar>fl_sub A (mean_intensity features1)
                                       (mean_intensity features2)\<bar>;
                                  intensity_sim =
                                    max 0 (fl_sub A 1 (fl_div A intensity_diff 255));
                                  ratio_diff =
                                    \<bar>fl_sub A (aspect_ratio features1) (aspect_ratio features2)\<bar>;
                                  ratio_sim = max 0 (fl_sub A 1 ratio_diff);
                                  area1 = face_area features1;
                                  area2 = face_area features2 in
                              if max area1 area2 = 0 then Inl (handler ZeroDivisionError)
                              else
                                let size_ratio =
                                      fl_div A (real_of_int (min area1 area2))
                                        (real_of_int (max area1 area2));
                                    combined_similarity =
                                      fl_add A
                                        (fl_add A
                                           (fl_add A
                                              (fl_mul A hist_correlation (fl A (4/10)))
                                              (fl_mul A intensity_sim (fl A (2/10))))
                                           (fl_mul A ratio_sim (fl A (2/10))))
                                        (fl_mul A size_ratio (fl A (2/10)));
                                    conf = max 0 (min 100 (fl_mul A combined_similarity 100));
                                    basic_threshold = fl A (4/10);
                                    matched = (combined_similarity \<ge> basic_threshold) in
                                Inr \<lparr>c_result = (if matched then ''Verified'' else ''Not Verified''),
                                     is_match = matched,
                                     confidence = builtin_round A conf 2,
                                     face_distance = None,
                                     similarity_score =
                                       Some (builtin_round A combined_similarity 4),
                                     tolerance_used = basic_threshold,
                                     c_message =
                                       (if matched then
                                          [Lit ''Faces appear to match with '', Fix2 conf,
                                           Lit ''% confidence (basic method)'']
                                        else
                                          [Lit ''Faces do not appear to match. Confidence: '',
                                           Fix2 conf, Lit ''% (basic method)'']),
                                     c_method = ''Basic OpenCV comparison'',
                                     camera_image = (image1_path, loc1),
                                     id_card_image = (image2_path, loc2),
                                     breakdown =
                                       Some \<lparr>histogram_correlation =
                                               builtin_round A hist_correlation 4,
                                             intensity_similarity =
                                               builtin_round A intensity_sim 4,
                                             ratio_similarity = builtin_round A ratio_sim 4,
                                             size_similarity = builtin_round A size_ratio 4\<rparr>,
                                     warning = Some ''This is a basic comparison method. For better accuracy, install face_recognition library.''\<rparr>)))))"

text \<open>\<open>FaceVerificationService.extract_face_encoding\<close> and \<open>compare_faces\<close>.\<close>

definition extract_face_encoding_fp ::
    "arith \<Rightarrow> service \<Rightarrow> env \<Rightarrow> string \<Rightarrow> failure + extraction" where
  "extract_face_encoding_fp A s e image_path =
     (if \<not> FACE_RECOGNITION_AVAILABLE s then extract_face_features_fp A e image_path
      else extract_face_encoding s e image_path)"

definition compare_faces_fp ::
    "arith \<Rightarrow> service \<Rightarrow> env \<Rightarrow> string \<Rightarrow> string \<Rightarrow> failure + comparison" where
  "compare_faces_fp A s e image1_path image2_path =
     (if \<not> FACE_RECOGNITION_AVAILABLE s then compare_faces_basic_fp A e image1_path image2_path
      else
        let handler = except_failure ''Face comparison failed: '' ''COMPARISON_ERROR'';
            encoding1_result = extract_face_encoding_fp A s e image1_path;
            encoding2_result = extract_face_encoding_fp A s e image2_path in
        case encoding1_result of
          Inl f1 \<Rightarrow> Inl (camera_failure f1)
        | Inr r1 \<Rightarrow>
            (case encoding2_result of
               Inl f2 \<Rightarrow> Inl (id_card_failure f2)
             | Inr r2 \<Rightarrow>
                 (case r1 of
                    FeaturesResult _ _ \<Rightarrow> Inl (handler (KeyError ''encoding''))
                  | EncodingResult encoding1 loc1 \<Rightarrow>
                      (case r2 of
                         FeaturesResult _ _ \<Rightarrow> Inl (handler (KeyError ''encoding''))
                       | EncodingResult encoding2 loc2 \<Rightarrow>
                           (case fr_face_distance_fp A encoding1 encoding2 of
                              Inl x \<Rightarrow> Inl (handler x)
                            | Inr distance \<Rightarrow>
                                let conf = max 0 (fl_mul A (fl_sub A 1 distance) 100);
                                    matched = (distance \<le> tolerance s) in
                                Inr \<lparr>c_result = (if matched then ''Verified'' else ''Not Verified''),
                                     is_match = matched,
                                     confidence = np_round A conf 2,
                                     face_distance = Some (np_round A distance 4),
                                     similarity_score = None,
                                     tolerance_used = tolerance s,
                                     c_message =
                                       (if matched then
                                          [Lit ''Faces match with '', Fix2 conf, Lit ''% confidence'']
                                        else
                                          [Lit ''Faces do not match. Confidence: '', Fix2 conf,
                                           Lit ''%'']),
                                     c_method = ''Advanced face_recognition library'',
                                     camera_image = (image1_path, loc1),
                                     id_card_image = (image2_path, loc2),
                                     breakdown = None,
                                     warning = None\<rparr>)))))"

text \<open>The formulas of the specification, each operation taken in the arithmetic \<open>A\<close>.\<close>

definition spec_embedding_confidence_in :: "arith \<Rightarrow> real \<Rightarrow> real" where
  "spec_embedding_confidence_in A distance = max 0 (fl_mul A (fl_sub A 1 distance) 100)"

definition spec_intensity_similarity_in :: "arith \<Rightarrow> real \<Rightarrow> real \<Rightarrow> real" where
  "spec_intensity_similarity_in A meanA meanB =
     max 0 (fl_sub A 1 (fl_div A \<bar>fl_sub A meanA meanB\<bar> 255))"

definition spec_ratio_similarity_in :: "arith \<Rightarrow> real \<Rightarrow> real \<Rightarrow> real" where
  "spec_ratio_similarity_in A ratioA ratioB = max 0 (fl_sub A 1 \<bar>fl_sub A ratioA ratioB\<bar>)"

definition spec_size_similarity_in :: "arith \<Rightarrow> int \<Rightarrow> int \<Rightarrow> real" where
  "spec_size_similarity_in A areaA areaB =
     fl_div A (real_of_int (min areaA areaB)) (real_of_int (max areaA areaB))"

definition spec_combined_similarity_in :: "arith \<Rightarrow> real \<Rightarrow> features \<Rightarrow> features \<Rightarrow> real" where
  "spec_combined_similarity_in A hc f1 f2 =
     fl_add A
       (fl_add A
          (fl_add A
             (fl_mul A hc (fl A (4/10)))
             (fl_mul A (spec_intensity_similarity_in A (mean_intensity f1) (mean_intensity f2))
                (fl A (2/10))))
          (fl_mul A (spec_ratio_similarity_in A (aspect_ratio f1) (aspect_ratio f2))
             (fl A (2/10))))
       (fl_mul A (spec_size_similarity_in A (face_area f1) (face_area f2)) (fl A (2/10)))"

section \<open>Sample inputs\<close>

definition sample_image :: "real \<Rightarrow> cv_rects \<Rightarrow> real \<Rightarrow> cv_image" where
  "sample_image brightness_level rects face_mean =
     \<lparr>img_width = 640, img_height = 480, gray_mean = brightness_level,
      gray_laplacian_var = 250, detectMultiScale = rects,
      region_calcHist = (\<lambda>r. replicate 256 4),
      region_mean = (\<lambda>r. face_mean),
      region_std = (\<lambda>r. 20)\<rparr>"

definition sample_faces :: "rect list \<Rightarrow> real list list \<Rightarrow> fr_image" where
  "sample_faces locs encs = \<lparr>face_locations = (\<lambda>m. locs), face_encodings = (\<lambda>l. encs)\<rparr>"

definition sample_file :: "real \<Rightarrow> rect list \<Rightarrow> real \<Rightarrow> real list list \<Rightarrow> fentry" where
  "sample_file brightness_level locs face_mean encs =
     Present \<lparr>cv_decoded = Some (sample_image brightness_level
                                   (if locs = [] then EmptyTuple else RectArray locs) face_mean),
              fr_decoded = Some (sample_faces locs encs)\<rparr>"

definition sample_env :: env where
  "sample_env =
     \<lparr>fs = (\<lambda>p.
         if p = ''camera.jpg'' then
           sample_file 120 [(100, 80, 200, 200)] 100 [[3 / 64, 0]]
         else if p = ''card.jpg'' then
           sample_file 130 [(40, 30, 100, 100)] 101 [[0, 0]]
         else if p = ''dark.jpg'' then
           sample_file 10 [(100, 80, 200, 200)] 100 [[3 / 64, 0]]
         else if p = ''group.jpg'' then
           sample_file 120 [(10, 10, 50, 50), (200, 10, 50, 50)] 100 [[1, 0], [0, 1]]
         else if p = ''landscape.jpg'' then
           sample_file 120 [] 100 []
         else Missing),
      now_isoformat = ''2024-01-01T00:00:00''\<rparr>"

definition sample_features :: "real \<Rightarrow> rect \<Rightarrow> features" where
  "sample_features m r =
     \<lparr>histogram = replicate 50 4, mean_intensity = m, std_intensity = 20,
      face_area = (case r of (x, y, w, h) \<Rightarrow> w * h),
      aspect_ratio = (case r of (x, y, w, h) \<Rightarrow> real_of_int w / real_of_int h),
      face_coords = r\<rparr>"

definition sample_request :: "string \<Rightarrow> string \<Rightarrow> verify_request" where
  "sample_request cam idc =
     \<lparr>camera_image_path = Some cam, id_card_image_path = Some idc, student_details = None\<rparr>"

section \<open>The formulas of the specification\<close>

text \<open>
  The comparison engine as the specification words it: the embedding confidence
  \<open>max(0, (1 - distance) * 100)\<close>, the three closed-form sub-scores of the heuristic path, their
  combination with the histogram correlation under the weights 0.4 / 0.2 / 0.2 / 0.2, and the
  clamp to an interval. The theorems below compare the services with these formulas.
\<close>

definition spec_embedding_confidence :: "real \<Rightarrow> real" where
  "spec_embedding_confidence distance = max 0 ((1 - distance) * 100)"

definition spec_intensity_similarity :: "real \<Rightarrow> real \<Rightarrow> real" where
  "spec_intensity_similarity meanA meanB = max 0 (1 - \<bar>meanA - meanB\<bar> / 255)"

definition spec_ratio_similarity :: "real \<Rightarrow> real \<Rightarrow> real" where
  "spec_ratio_similarity ratioA ratioB = max 0 (1 - \<bar>ratioA - ratioB\<bar>)"

definition spec_size_similarity :: "int \<Rightarrow> int \<Rightarrow> real" where
  "spec_size_similarity areaA areaB =
     real_of_int (min areaA areaB) / real_of_int (max areaA areaB)"

definition spec_combined_similarity :: "real \<Rightarrow> features \<Rightarrow> features \<Rightarrow> real" where
  "spec_combined_similarity hc f1 f2 =
     hc * (4 / 10)
     + spec_intensity_similarity (mean_intensity f1) (mean_intensity f2) * (2 / 10)
     + spec_ratio_similarity (aspect_ratio f1) (aspect_ratio f2) * (2 / 10)
     + spec_size_similarity (face_area f1) (face_area f2) * (2 / 10)"

definition spec_clamp :: "real \<Rightarrow> real \<Rightarrow> real \<Rightarrow> real" where
  "spec_clamp x lo hi = max lo (min hi x)"

text \<open>
  The list that the \<open>/verify\<close> route builds from the two quality reports: one entry for each
  image that failed, with the name of the image in front of the report's message.
\<close>

definition quality_issues_of :: "env \<Rightarrow> string \<Rightarrow> string \<Rightarrow> pyval list" where
  "quality_issues_of e cam idc =
     (case validate_image_quality e cam of
        Inl f \<Rightarrow> [PMsg (Lit ''Camera image: '' # message f)] | Inr ok \<Rightarrow> [])
     @ (case validate_image_quality e idc of
          Inl f \<Rightarrow> [PMsg (Lit ''ID card image: '' # message f)] | Inr ok \<Rightarrow> [])"

section \<open>Rounding, distances and correlations\<close>

lemma round_half_even_lower: "of_int k \<le> r \<Longrightarrow> k \<le> round_half_even r"
proof -
  assume "of_int k \<le> r"
  then have "k \<le> \<lfloor>r\<rfloor>" by (simp add: le_floor_iff)
  then show ?thesis by (simp add: round_half_even_def Let_def)
qed

lemma round_half_even_upper: "r \<le> of_int k \<Longrightarrow> round_half_even r \<le> k"
proof -
  assume a: "r \<le> of_int k"
  have fl: "\<lfloor>r\<rfloor> \<le> k" using a by (simp add: floor_le_iff)
  show ?thesis
  proof (cases "r = of_int k")
    case True
    then show ?thesis by (simp add: round_half_even_def Let_def)
  next
    case False
    with a have "r < of_int k" by simp
    then have "\<lfloor>r\<rfloor> < k" by (simp add: floor_less_iff)
    then show ?thesis by (simp add: round_half_even_def Let_def)
  qed
qed

lemma py_round_lower: "of_int k \<le> x \<Longrightarrow> of_int k \<le> py_round x n"
proof -
  assume a: "of_int k \<le> x"
  have "of_int (k * 10 ^ n) \<le> x * 10 ^ n" using a by simp
  then have "k * 10 ^ n \<le> round_half_even (x * 10 ^ n)" by (rule round_half_even_lower)
  then have "of_int (k * 10 ^ n) \<le> (of_int (round_half_even (x * 10 ^ n)) :: real)"
    by (simp only: of_int_le_iff)
  then show ?thesis by (simp add: py_round_def pos_le_divide_eq)
qed

lemma py_round_upper: "x \<le> of_int k \<Longrightarrow> py_round x n \<le> of_int k"
proof -
  assume a: "x \<le> of_int k"
  have "x * 10 ^ n \<le> of_int (k * 10 ^ n)" using a by simp
  then have "round_half_even (x * 10 ^ n) \<le> k * 10 ^ n" by (rule round_half_even_upper)
  then have "(of_int (round_half_even (x * 10 ^ n)) :: real) \<le> of_int (k * 10 ^ n)"
    by (simp only: of_int_le_iff)
  then show ?thesis by (simp add: py_round_def pos_divide_le_eq)
qed

lemma py_round_percent:
  "0 \<le> x \<Longrightarrow> x \<le> 100 \<Longrightarrow> 0 \<le> py_round x 2 \<and> py_round x 2 \<le> 100"
  using py_round_lower [of 0 x 2] py_round_upper [of x 100 2] by simp

lemma np_norm_nonneg: "0 \<le> np_norm v"
proof -
  have "0 \<le> sum_list (map (\<lambda>x. x * x) v)"
    by (rule sum_list_nonneg) auto
  then show ?thesis by (simp add: np_norm_def)
qed

lemma np_norm_uminus: "np_norm (map uminus v) = np_norm v"
  by (simp add: np_norm_def comp_def)

lemma map2_minus_swap: "map2 (-) b a = map uminus (map2 (-) a (b :: real list))"
  by (induction a b rule: list_induct2') auto

lemma np_sub_swap: "np_sub a b = Inr v \<Longrightarrow> np_sub b a = Inr (map uminus v)"
proof (cases "length a = length b")
  case True
  assume "np_sub a b = Inr v"
  with True have v: "v = map2 (-) a b" by (simp add: np_sub_def)
  from True have "np_sub b a = Inr (map2 (-) b a)" by (simp add: np_sub_def)
  then show ?thesis unfolding v by (simp only: map2_minus_swap [of b a])
next
  case False
  assume "np_sub a b = Inr v"
  with False show ?thesis
    unfolding np_sub_def by (auto split: list.splits)
qed

lemma np_sub_error: "np_sub a b = Inl x \<Longrightarrow> x = ValueError"
  unfolding np_sub_def by (auto split: if_splits list.splits)

lemma fr_face_distance_sym: "fr_face_distance b a = fr_face_distance a b"
proof (cases "np_sub a b")
  case (Inr v)
  then show ?thesis
    using np_sub_swap [OF Inr] by (simp add: fr_face_distance_def np_norm_uminus)
next
  case (Inl x)
  have "np_sub b a = Inl ValueError"
  proof (cases "np_sub b a")
    case (Inl y)
    then show ?thesis using np_sub_error by blast
  next
    case (Inr w)
    from np_sub_swap [OF Inr] Inl show ?thesis by simp
  qed
  moreover have "x = ValueError" using Inl by (rule np_sub_error)
  ultimately show ?thesis using Inl by (simp add: fr_face_distance_def)
qed

lemma fr_face_distance_nonneg: "fr_face_distance a b = Inr d \<Longrightarrow> 0 \<le> d"
  by (auto simp: fr_face_distance_def np_norm_nonneg split: sum.splits)

lemma map2_mult_swap: "map2 (*) b a = map2 (*) a (b :: real list)"
  by (induction a b rule: list_induct2') (auto simp: mult.commute)

lemma compareHist_correl_sym: "compareHist_correl h2 h1 = compareHist_correl h1 h2"
proof (cases "length h1 = length h2")
  case False
  then show ?thesis by (auto simp: compareHist_correl_def)
next
  case True
  have m: "map2 (*) h2 h1 = map2 (*) h1 h2" by (rule map2_mult_swap)
  show ?thesis
    using True unfolding compareHist_correl_def Let_def m
    by (simp add: mult.commute)
qed

lemma fr_face_distance_euclidean:
  assumes "length a = length b"
  shows "fr_face_distance a b = Inr (sqrt (\<Sum>(x, y) \<leftarrow> zip a b. (x - y)\<^sup>2))"
proof -
  have "np_norm (map2 (-) a b) = sqrt (\<Sum>(x, y) \<leftarrow> zip a b. (x - y)\<^sup>2)"
    by (simp add: np_norm_def comp_def split_def power2_eq_square)
  with assms show ?thesis
    by (simp add: fr_face_distance_def np_sub_def)
qed

section \<open>What a comparison returns\<close>

lemmas spec_defs =
  spec_embedding_confidence_def spec_intensity_similarity_def spec_ratio_similarity_def
  spec_size_similarity_def spec_combined_similarity_def spec_clamp_def

lemma compare_faces_value:
  assumes "FACE_RECOGNITION_AVAILABLE s"
    and "extract_face_encoding s e p1 = Inr (EncodingResult e1 l1)"
    and "extract_face_encoding s e p2 = Inr (EncodingResult e2 l2)"
    and "fr_face_distance e1 e2 = Inr d"
  shows "\<exists>c. compare_faces s e p1 p2 = Inr c
           \<and> confidence c = py_round (spec_embedding_confidence d) 2
           \<and> is_match c = (d \<le> tolerance s)
           \<and> face_distance c = Some (py_round d 4)
           \<and> similarity_score c = None
           \<and> tolerance_used c = tolerance s"
  using assms by (simp add: compare_faces_def Let_def spec_defs)

lemma compare_faces_inv:
  assumes "FACE_RECOGNITION_AVAILABLE s" and "compare_faces s e p1 p2 = Inr c"
  shows "\<exists>e1 l1 e2 l2 d.
           extract_face_encoding s e p1 = Inr (EncodingResult e1 l1)
         \<and> extract_face_encoding s e p2 = Inr (EncodingResult e2 l2)
         \<and> fr_face_distance e1 e2 = Inr d"
  using assms
  by (auto simp: compare_faces_def Let_def split: sum.splits extraction.splits)

lemma compare_faces_basic_value:
  assumes "extract_face_features e p1 = Inr (FeaturesResult f1 l1)"
    and "extract_face_features e p2 = Inr (FeaturesResult f2 l2)"
    and "compareHist_correl (histogram f1) (histogram f2) = Inr hc"
    and "max (face_area f1) (face_area f2) \<noteq> 0"
  shows "\<exists>c. compare_faces_basic e p1 p2 = Inr c
           \<and> confidence c = py_round (spec_clamp (spec_combined_similarity hc f1 f2 * 100) 0 100) 2
           \<and> is_match c = (spec_combined_similarity hc f1 f2 \<ge> 4 / 10)
           \<and> face_distance c = None
           \<and> similarity_score c = Some (py_round (spec_combined_similarity hc f1 f2) 4)
           \<and> tolerance_used c = 4 / 10
           \<and> breakdown c =
               Some \<lparr>histogram_correlation = py_round hc 4,
                     intensity_similarity =
                       py_round (spec_intensity_similarity (mean_intensity f1)
                                   (mean_intensity f2)) 4,
                     ratio_similarity =
                       py_round (spec_ratio_similarity (aspect_ratio f1) (aspect_ratio f2)) 4,
                     size_similarity =
                       py_round (spec_size_similarity (face_area f1) (face_area f2)) 4\<rparr>"
  using assms by (simp add: compare_faces_basic_def Let_def spec_defs)

lemma compare_faces_basic_inv:
  assumes "compare_faces_basic e p1 p2 = Inr c"
  shows "\<exists>f1 l1 f2 l2 hc.
           extract_face_features e p1 = Inr (FeaturesResult f1 l1)
         \<and> extract_face_features e p2 = Inr (FeaturesResult f2 l2)
         \<and> compareHist_correl (histogram f1) (histogram f2) = Inr hc
         \<and> max (face_area f1) (face_area f2) \<noteq> 0"
  using assms
  by (auto simp: compare_faces_basic_def Let_def split: sum.splits extraction.splits if_splits)

lemma spec_combined_similarity_sym:
  "spec_combined_similarity hc f2 f1 = spec_combined_similarity hc f1 f2"
  by (simp add: spec_defs abs_minus_commute min.commute max.commute)

lemma extract_face_features_histogram:
  assumes "extract_face_features e p = Inr (FeaturesResult f l)"
  shows "\<exists>img. imread e p = Some img \<and> histogram f = take 50 (region_calcHist img l)"
  using assms
  by (auto simp: extract_face_features_def Let_def
      split: if_splits sum.splits option.splits list.splits)

section \<open>The sample inputs, evaluated\<close>

lemma sqrt_sample: "sqrt (9 / 4096) = 3 / 64"
  by (rule real_sqrt_unique) (simp_all add: power2_eq_square)

lemmas sample_defs =
  sample_env_def sample_file_def sample_faces_def sample_image_def
  path_exists_def imread_def load_image_file_def init_def

lemma sample_encoding_camera:
  "extract_face_encoding (init None None True) sample_env ''camera.jpg''
     = Inr (EncodingResult [3 / 64, 0] (100, 80, 200, 200))"
  by (simp add: extract_face_encoding_def detect_faces_dlib_def Let_def sample_defs)

lemma sample_encoding_card:
  "extract_face_encoding (init None None True) sample_env ''card.jpg''
     = Inr (EncodingResult [0, 0] (40, 30, 100, 100))"
  by (simp add: extract_face_encoding_def detect_faces_dlib_def Let_def sample_defs)

lemma sample_encoding_dark:
  "extract_face_encoding (init None None True) sample_env ''dark.jpg''
     = Inr (EncodingResult [3 / 64, 0] (100, 80, 200, 200))"
  by (simp add: extract_face_encoding_def detect_faces_dlib_def Let_def sample_defs)

lemma sample_encoding_group:
  "extract_face_encoding (init None None True) sample_env ''group.jpg''
     = Inl (multiple_faces_failure 2)"
  by (simp add: extract_face_encoding_def detect_faces_dlib_def Let_def sample_defs
      multiple_faces_failure_def)

lemma sample_distance: "fr_face_distance [3 / 64, 0] [0, 0] = Inr (3 / 64)"
  by (simp add: fr_face_distance_def np_sub_def np_norm_def sqrt_sample)

lemma sample_features_camera:
  "extract_face_features sample_env ''camera.jpg''
     = Inr (FeaturesResult (sample_features 100 (100, 80, 200, 200)) (100, 80, 200, 200))"
  by (simp add: extract_face_features_def detect_faces_opencv_def Let_def sample_defs
      sample_features_def)

lemma sample_features_card:
  "extract_face_features sample_env ''card.jpg''
     = Inr (FeaturesResult (sample_features 101 (40, 30, 100, 100)) (40, 30, 100, 100))"
  by (simp add: extract_face_features_def detect_faces_opencv_def Let_def sample_defs
      sample_features_def)

lemma sample_correlation: "compareHist_correl (replicate 50 4) (replicate 50 4) = Inr 1"
  by (simp add: compareHist_correl_def Let_def sum_list_replicate DBL_EPSILON_def)

lemma sample_correlation_features:
  "compareHist_correl (histogram (sample_features 100 (100, 80, 200, 200)))
     (histogram (sample_features 101 (40, 30, 100, 100))) = Inr 1"
  by (simp add: sample_features_def sample_correlation)

lemma sample_area:
  "max (face_area (sample_features 100 (100, 80, 200, 200)))
     (face_area (sample_features 101 (40, 30, 100, 100))) \<noteq> 0"
  by (simp add: sample_features_def)

lemma sample_combined:
  "spec_combined_similarity 1 (sample_features 100 (100, 80, 200, 200))
     (sample_features 101 (40, 30, 100, 100)) = 4331 / 5100"
  by (simp add: spec_defs sample_features_def)

lemma sample_compare_embedding:
  "\<exists>c. compare_faces (init None None True) sample_env ''camera.jpg'' ''card.jpg'' = Inr c
     \<and> confidence c = 9531 / 100 \<and> is_match c \<and> face_distance c = Some (469 / 10000)"
  using compare_faces_value [OF _ sample_encoding_camera sample_encoding_card sample_distance]
  by (auto simp: init_def spec_defs py_round_def round_half_even_def)

lemma sample_compare_basic:
  "\<exists>c. compare_faces_basic sample_env ''camera.jpg'' ''card.jpg'' = Inr c
     \<and> confidence c = 2123 / 25 \<and> is_match c \<and> similarity_score c = Some (2123 / 2500)
     \<and> breakdown c \<noteq> None"
  using compare_faces_basic_value [OF sample_features_camera sample_features_card
      sample_correlation_features sample_area]
  by (auto simp: sample_combined spec_clamp_def py_round_def round_half_even_def)

lemma sample_quality_dark:
  "validate_image_quality sample_env ''dark.jpg''
     = Inl \<lparr>message = [Lit ''Image is too dark for face recognition''],
            error_code = ''TOO_DARK''\<rparr>"
  by (simp add: validate_image_quality_def Let_def sample_defs)

lemma sample_quality_camera:
  "\<exists>q. validate_image_quality sample_env ''camera.jpg'' = Inr q"
  by (simp add: validate_image_quality_def Let_def sample_defs)

lemma sample_quality_card:
  "\<exists>q. validate_image_quality sample_env ''card.jpg'' = Inr q"
  by (simp add: validate_image_quality_def Let_def sample_defs)

section \<open>The exact arithmetic as an instance\<close>

lemma exact_arith_ops:
  "fl exact_arith = (\<lambda>x. x)" "fl_add exact_arith = (+)" "fl_sub exact_arith = (-)"
  "fl_mul exact_arith = (*)" "fl_div exact_arith = (/)"
  "np_linalg_norm exact_arith = np_norm" "cv_compareHist exact_arith = correl_exact"
  "np_round exact_arith = py_round" "builtin_round exact_arith = py_round"
  by (simp_all add: exact_arith_def)

lemma init_fp_exact: "init_fp exact_arith tol mdl avail = init tol mdl avail"
  unfolding init_fp_def init_def exact_arith_ops by (rule refl)

lemma np_sub_fp_exact: "np_sub_fp exact_arith a b = np_sub a b"
  unfolding np_sub_fp_def np_sub_def exact_arith_ops by (rule refl)

lemma fr_face_distance_fp_exact: "fr_face_distance_fp exact_arith a b = fr_face_distance a b"
  unfolding fr_face_distance_fp_def fr_face_distance_def np_sub_fp_exact exact_arith_ops
  by (rule refl)

lemma compareHist_correl_fp_exact:
  "compareHist_correl_fp exact_arith h1 h2 = compareHist_correl h1 h2"
  unfolding compareHist_correl_fp_def compareHist_correl_def correl_exact_def exact_arith_ops
  by (simp add: Let_def)

lemma extract_face_features_fp_exact:
  "extract_face_features_fp exact_arith e p = extract_face_features e p"
  unfolding extract_face_features_fp_def extract_face_features_def exact_arith_ops
  by (rule refl)

lemma extract_face_encoding_fp_exact:
  "extract_face_encoding_fp exact_arith s e p = extract_face_encoding s e p"
  by (simp add: extract_face_encoding_fp_def extract_face_encoding_def
      extract_face_features_fp_exact)

lemma compare_faces_basic_fp_exact:
  "compare_faces_basic_fp exact_arith e p1 p2 = compare_faces_basic e p1 p2"
  unfolding compare_faces_basic_fp_def compare_faces_basic_def
    extract_face_features_fp_exact compareHist_correl_fp_exact exact_arith_ops
  by (rule refl)

lemma compare_faces_fp_exact:
  "compare_faces_fp exact_arith s e p1 p2 = compare_faces s e p1 p2"
  unfolding compare_faces_fp_def compare_faces_def compare_faces_basic_fp_exact
    extract_face_encoding_fp_exact fr_face_distance_fp_exact exact_arith_ops
  by (rule refl)

lemma spec_in_exact:
  "spec_embedding_confidence_in exact_arith d = spec_embedding_confidence d"
  "spec_intensity_similarity_in exact_arith mA mB = spec_intensity_similarity mA mB"
  "spec_ratio_similarity_in exact_arith rA rB = spec_ratio_similarity rA rB"
  "spec_size_similarity_in exact_arith aA aB = spec_size_similarity aA aB"
  "spec_combined_similarity_in exact_arith hc f1 f2 = spec_combined_similarity hc f1 f2"
  by (simp_all add: spec_embedding_confidence_in_def spec_intensity_similarity_in_def
      spec_ratio_similarity_in_def spec_size_similarity_in_def spec_combined_similarity_in_def
      spec_defs exact_arith_ops)

lemma extract_face_features_fp_histogram:
  assumes "extract_face_features_fp A e p = Inr (FeaturesResult f l)"
  shows "\<exists>img. imread e p = Some img \<and> histogram f = take 50 (region_calcHist img l)"
  using assms
  by (auto simp: extract_face_features_fp_def Let_def
      split: if_splits sum.splits option.splits list.splits)

section \<open>The embedding comparison\<close>

text \<open>
  Claim C1, as amended. When the embedding variant extracts one encoding from each of the two
  images and their distance is defined, \<open>compare_faces\<close> succeeds. The confidence it returns
  is \<open>max(0, (1 - distance) * 100)\<close> rounded to two decimals by \<open>round\<close>, the subtraction, the
  product and the rounding being those of the arithmetic the service runs in; \<open>is_match\<close> is
  \<open>distance \<le> tolerance\<close>, decided on the computed distance before it is rounded; the
  distance is the norm of the componentwise difference of the two encodings when they have the
  same length; and a service built without a tolerance has the tolerance \<open>0.6\<close>. The statement
  holds in every arithmetic, that of IEEE doubles and that of the reals alike.
\<close>

theorem compare_faces_embedding_result:
  assumes "FACE_RECOGNITION_AVAILABLE s"
    and "extract_face_encoding_fp A s e p1 = Inr (EncodingResult e1 l1)"
    and "extract_face_encoding_fp A s e p2 = Inr (EncodingResult e2 l2)"
    and "fr_face_distance_fp A e1 e2 = Inr d"
  shows "\<exists>c. compare_faces_fp A s e p1 p2 = Inr c
           \<and> confidence c = np_round A (spec_embedding_confidence_in A d) 2
           \<and> is_match c = (d \<le> tolerance s)
           \<and> (length e1 = length e2 \<longrightarrow> d = np_linalg_norm A (map2 (fl_sub A) e1 e2))
           \<and> tolerance (init_fp A None mdl avail) = fl A (6 / 10)"
proof -
  have "length e1 = length e2 \<longrightarrow> d = np_linalg_norm A (map2 (fl_sub A) e1 e2)"
    using assms(4) by (auto simp: fr_face_distance_fp_def np_sub_fp_def)
  moreover have "tolerance (init_fp A None mdl avail) = fl A (6 / 10)"
    by (simp add: init_fp_def)
  moreover have "\<exists>c. compare_faces_fp A s e p1 p2 = Inr c
           \<and> confidence c = np_round A (spec_embedding_confidence_in A d) 2
           \<and> is_match c = (d \<le> tolerance s)"
    using assms by (simp add: compare_faces_fp_def Let_def spec_embedding_confidence_in_def)
  ultimately show ?thesis by blast
qed

theorem compare_faces_embedding_result_witness:
  "\<exists>c. compare_faces_fp exact_arith (init_fp exact_arith None None True) sample_env
          ''camera.jpg'' ''card.jpg'' = Inr c
        \<and> confidence c = 9531 / 100
        \<and> is_match c = (3 / 64 \<le> tolerance (init_fp exact_arith None None True))
        \<and> tolerance (init_fp exact_arith None None True) = 6 / 10"
proof -
  have a: "FACE_RECOGNITION_AVAILABLE (init_fp exact_arith None None True)"
    by (simp add: init_fp_def)
  have x: "extract_face_encoding_fp exact_arith (init_fp exact_arith None None True) sample_env
             ''camera.jpg'' = Inr (EncodingResult [3 / 64, 0] (100, 80, 200, 200))"
          "extract_face_encoding_fp exact_arith (init_fp exact_arith None None True) sample_env
             ''card.jpg'' = Inr (EncodingResult [0, 0] (40, 30, 100, 100))"
    by (simp_all add: extract_face_encoding_fp_exact init_fp_exact sample_encoding_camera
        sample_encoding_card)
  have d: "fr_face_distance_fp exact_arith [3 / 64, 0] [0, 0] = Inr (3 / 64)"
    by (simp add: fr_face_distance_fp_exact sample_distance)
  have r: "np_round exact_arith (spec_embedding_confidence_in exact_arith (3 / 64)) 2
             = 9531 / 100"
    by (simp add: spec_in_exact exact_arith_ops spec_defs py_round_def round_half_even_def)
  have t: "fl exact_arith (6 / 10) = 6 / 10" by (simp add: exact_arith_ops)
  from compare_faces_embedding_result [OF a x d, of None True]
  show ?thesis unfolding r t by blast
qed

text \<open>
  The claim as it was stated fails on the returned record. The two sample encodings and every
  intermediate value are dyadic rationals, so that no operation before the final \<open>round\<close>
  rounds anything: the distance is \<open>3/64\<close>, the formula gives 95.3125, and the service returns
  95.31.
\<close>

theorem compare_faces_unrounded_counterexample:
  "extract_face_encoding (init None None True) sample_env ''camera.jpg''
     = Inr (EncodingResult [3 / 64, 0] (100, 80, 200, 200))
   \<and> extract_face_encoding (init None None True) sample_env ''card.jpg''
     = Inr (EncodingResult [0, 0] (40, 30, 100, 100))
   \<and> fr_face_distance [3 / 64, 0] [0, 0] = Inr (3 / 64)
   \<and> map_sum error_code confidence
        (compare_faces (init None None True) sample_env ''camera.jpg'' ''card.jpg'')
       = Inr (9531 / 100)
   \<and> max 0 ((1 - 3 / 64) * 100) = (953125 / 10000 :: real)
   \<and> map_sum error_code confidence
        (compare_faces (init None None True) sample_env ''camera.jpg'' ''card.jpg'')
       \<noteq> Inr (max 0 ((1 - 3 / 64) * 100))"
proof -
  have "map_sum error_code confidence
        (compare_faces (init None None True) sample_env ''camera.jpg'' ''card.jpg'')
       = Inr (9531 / 100)"
    using sample_compare_embedding by auto
  then show ?thesis
    by (simp add: sample_encoding_camera sample_encoding_card sample_distance)
qed

section \<open>The heuristic comparison\<close>

text \<open>
  Claim C2, as amended. When the heuristic variant extracts features from each of the two
  images, the two truncated histograms (the first 50 bins) have the same length and the larger
  face area is not zero, \<open>compare_faces_basic\<close> succeeds: it combines the histogram
  correlation, the intensity similarity \<open>max(0, 1 - |meanA - meanB| / 255)\<close>, the aspect-ratio
  similarity \<open>max(0, 1 - |ratioA - ratioB|)\<close> and the size similarity
  \<open>min(areaA, areaB) / max(areaA, areaB)\<close> with the weights 0.4 / 0.2 / 0.2 / 0.2; the
  confidence it returns is the combined score times 100, clamped to [0, 100] and rounded to two
  decimals by \<open>round\<close>; \<open>is_match\<close> is \<open>combined \<ge> 0.4\<close> on the unrounded score; and the
  result carries the four sub-scores, each rounded to four decimals. Every operation is that
  of the arithmetic the service runs in, and the statement holds in every arithmetic.
\<close>

theorem compare_faces_basic_scores:
  assumes "extract_face_features_fp A e p1 = Inr (FeaturesResult f1 l1)"
    and "extract_face_features_fp A e p2 = Inr (FeaturesResult f2 l2)"
    and "compareHist_correl_fp A (histogram f1) (histogram f2) = Inr hc"
    and "max (face_area f1) (face_area f2) \<noteq> 0"
  shows "\<exists>c. compare_faces_basic_fp A e p1 p2 = Inr c
           \<and> confidence c
               = builtin_round A
                   (spec_clamp (fl_mul A (spec_combined_similarity_in A hc f1 f2) 100) 0 100) 2
           \<and> is_match c = (spec_combined_similarity_in A hc f1 f2 \<ge> fl A (4 / 10))
           \<and> breakdown c =
               Some \<lparr>histogram_correlation = builtin_round A hc 4,
                     intensity_similarity =
                       builtin_round A
                         (spec_intensity_similarity_in A (mean_intensity f1)
                            (mean_intensity f2)) 4,
                     ratio_similarity =
                       builtin_round A
                         (spec_ratio_similarity_in A (aspect_ratio f1) (aspect_ratio f2)) 4,
                     size_similarity =
                       builtin_round A
                         (spec_size_similarity_in A (face_area f1) (face_area f2)) 4\<rparr>
           \<and> hc = cv_compareHist A (histogram f1) (histogram f2)
           \<and> (\<exists>img1 img2.
                 imread e p1 = Some img1 \<and> histogram f1 = take 50 (region_calcHist img1 l1)
               \<and> imread e p2 = Some img2 \<and> histogram f2 = take 50 (region_calcHist img2 l2))"
proof -
  have "\<exists>c. compare_faces_basic_fp A e p1 p2 = Inr c
           \<and> confidence c
               = builtin_round A
                   (spec_clamp (fl_mul A (spec_combined_similarity_in A hc f1 f2) 100) 0 100) 2
           \<and> is_match c = (spec_combined_similarity_in A hc f1 f2 \<ge> fl A (4 / 10))
           \<and> breakdown c =
               Some \<lparr>histogram_correlation = builtin_round A hc 4,
                     intensity_similarity =
                       builtin_round A
                         (spec_intensity_similarity_in A (mean_intensity f1)
                            (mean_intensity f2)) 4,
                     ratio_similarity =
                       builtin_round A
                         (spec_ratio_similarity_in A (aspect_ratio f1) (aspect_ratio f2)) 4,
                     size_similarity =
                       builtin_round A
                         (spec_size_similarity_in A (face_area f1) (face_area f2)) 4\<rparr>"
    using assms
    by (simp add: compare_faces_basic_fp_def Let_def spec_combined_similarity_in_def
        spec_intensity_similarity_in_def spec_ratio_similarity_in_def
        spec_size_similarity_in_def spec_clamp_def)
  moreover have "hc = cv_compareHist A (histogram f1) (histogram f2)"
    using assms(3) by (auto simp: compareHist_correl_fp_def split: if_splits)
  ultimately show ?thesis
    using extract_face_features_fp_histogram [OF assms(1)]
      extract_face_features_fp_histogram [OF assms(2)]
    by blast
qed

theorem compare_faces_basic_scores_witness:
  "\<exists>c. compare_faces_basic_fp exact_arith sample_env ''camera.jpg'' ''card.jpg'' = Inr c
        \<and> confidence c = 2123 / 25
        \<and> is_match c
        \<and> breakdown c =
            Some \<lparr>histogram_correlation = 1, intensity_similarity = 9961 / 10000,
                  ratio_similarity = 1, size_similarity = 1 / 4\<rparr>"
proof -
  have x: "extract_face_features_fp exact_arith sample_env ''camera.jpg''
     = Inr (FeaturesResult (sample_features 100 (100, 80, 200, 200)) (100, 80, 200, 200))"
     "extract_face_features_fp exact_arith sample_env ''card.jpg''
     = Inr (FeaturesResult (sample_features 101 (40, 30, 100, 100)) (40, 30, 100, 100))"
    by (simp_all add: extract_face_features_fp_exact sample_features_camera
        sample_features_card)
  have h: "compareHist_correl_fp exact_arith
             (histogram (sample_features 100 (100, 80, 200, 200)))
             (histogram (sample_features 101 (40, 30, 100, 100))) = Inr 1"
    by (simp add: compareHist_correl_fp_exact sample_correlation_features)
  from compare_faces_basic_scores [OF x h sample_area]
  show ?thesis
    unfolding spec_in_exact exact_arith_ops sample_combined
    by (auto simp: sample_features_def spec_defs py_round_def round_half_even_def)
qed

text \<open>
  The claim as it was stated fails on the returned record: on the sample pair the clamped
  score is \<open>4331/51\<close> (84.9215...) and the service returns 84.92; the intensity similarity
  \<open>254/255\<close> is reported as 0.9961.
\<close>

theorem compare_faces_basic_unrounded_counterexample:
  "extract_face_features sample_env ''camera.jpg''
     = Inr (FeaturesResult (sample_features 100 (100, 80, 200, 200)) (100, 80, 200, 200))
   \<and> extract_face_features sample_env ''card.jpg''
     = Inr (FeaturesResult (sample_features 101 (40, 30, 100, 100)) (40, 30, 100, 100))
   \<and> compareHist_correl (histogram (sample_features 100 (100, 80, 200, 200)))
        (histogram (sample_features 101 (40, 30, 100, 100))) = Inr 1
   \<and> spec_clamp (spec_combined_similarity 1 (sample_features 100 (100, 80, 200, 200))
                   (sample_features 101 (40, 30, 100, 100)) * 100) 0 100 = 4331 / 51
   \<and> map_sum error_code confidence (compare_faces_basic sample_env ''camera.jpg'' ''card.jpg'')
       = Inr (2123 / 25)
   \<and> map_sum error_code confidence (compare_faces_basic sample_env ''camera.jpg'' ''card.jpg'')
       \<noteq> Inr (spec_clamp (spec_combined_similarity 1 (sample_features 100 (100, 80, 200, 200))
                             (sample_features 101 (40, 30, 100, 100)) * 100) 0 100)"
proof -
  have "map_sum error_code confidence (compare_faces_basic sample_env ''camera.jpg'' ''card.jpg'')
       = Inr (2123 / 25)"
    using sample_compare_basic by auto
  then show ?thesis
    by (simp add: sample_features_camera sample_features_card sample_correlation_features
        sample_combined spec_clamp_def)
qed

section \<open>Range of the confidence and the match decision\<close>

text \<open>
  Claim C8. Every successful comparison, under either variant, returns a confidence in the
  closed interval [0, 100], and its \<open>is_match\<close> is a function of the score and the threshold
  in force: the embedding distance against the tolerance, or the combined heuristic
  similarity against 0.4.
\<close>

theorem comparison_confidence_range:
  assumes "compare_faces s e p1 p2 = Inr c"
  shows "0 \<le> confidence c \<and> confidence c \<le> 100
     \<and> (FACE_RECOGNITION_AVAILABLE s \<longrightarrow>
          (\<exists>e1 l1 e2 l2 d.
             extract_face_encoding s e p1 = Inr (EncodingResult e1 l1)
           \<and> extract_face_encoding s e p2 = Inr (EncodingResult e2 l2)
           \<and> fr_face_distance e1 e2 = Inr d
           \<and> is_match c = (d \<le> tolerance s)))
     \<and> (\<not> FACE_RECOGNITION_AVAILABLE s \<longrightarrow>
          (\<exists>f1 l1 f2 l2 hc.
             extract_face_features e p1 = Inr (FeaturesResult f1 l1)
           \<and> extract_face_features e p2 = Inr (FeaturesResult f2 l2)
           \<and> compareHist_correl (histogram f1) (histogram f2) = Inr hc
           \<and> is_match c = (spec_combined_similarity hc f1 f2 \<ge> 4 / 10)))"
proof (cases "FACE_RECOGNITION_AVAILABLE s")
  case True
  from compare_faces_inv [OF True assms] obtain e1 l1 e2 l2 d where
    x: "extract_face_encoding s e p1 = Inr (EncodingResult e1 l1)"
       "extract_face_encoding s e p2 = Inr (EncodingResult e2 l2)"
       "fr_face_distance e1 e2 = Inr d"
    by blast
  from compare_faces_value [OF True x] assms have
    c: "confidence c = py_round (spec_embedding_confidence d) 2"
       "is_match c = (d \<le> tolerance s)"
    by auto
  have "0 \<le> d" using x(3) by (rule fr_face_distance_nonneg)
  then have "0 \<le> spec_embedding_confidence d" "spec_embedding_confidence d \<le> 100"
    by (auto simp: spec_embedding_confidence_def)
  then have "0 \<le> confidence c \<and> confidence c \<le> 100"
    unfolding c by (rule py_round_percent)
  with True x c show ?thesis by blast
next
  case False
  with assms have b: "compare_faces_basic e p1 p2 = Inr c" by (simp add: compare_faces_def)
  from compare_faces_basic_inv [OF b] obtain f1 l1 f2 l2 hc where
    x: "extract_face_features e p1 = Inr (FeaturesResult f1 l1)"
       "extract_face_features e p2 = Inr (FeaturesResult f2 l2)"
       "compareHist_correl (histogram f1) (histogram f2) = Inr hc"
       "max (face_area f1) (face_area f2) \<noteq> 0"
    by blast
  from compare_faces_basic_value [OF x] b have
    c: "confidence c = py_round (spec_clamp (spec_combined_similarity hc f1 f2 * 100) 0 100) 2"
       "is_match c = (spec_combined_similarity hc f1 f2 \<ge> 4 / 10)"
    by auto
  have "0 \<le> spec_clamp (spec_combined_similarity hc f1 f2 * 100) 0 100"
       "spec_clamp (spec_combined_similarity hc f1 f2 * 100) 0 100 \<le> 100"
    by (auto simp: spec_clamp_def)
  then have "0 \<le> confidence c \<and> confidence c \<le> 100"
    unfolding c by (rule py_round_percent)
  with False x c show ?thesis by blast
qed

theorem comparison_confidence_range_witness:
  "(\<exists>c. compare_faces (init None None True) sample_env ''camera.jpg'' ''card.jpg'' = Inr c
        \<and> 0 \<le> confidence c \<and> confidence c \<le> 100)
   \<and> (\<exists>c. compare_faces (init None None False) sample_env ''camera.jpg'' ''card.jpg'' = Inr c
        \<and> 0 \<le> confidence c \<and> confidence c \<le> 100)"
proof -
  obtain c1 where
    c1: "compare_faces (init None None True) sample_env ''camera.jpg'' ''card.jpg'' = Inr c1"
    using sample_compare_embedding by blast
  obtain c2 where "compare_faces_basic sample_env ''camera.jpg'' ''card.jpg'' = Inr c2"
    using sample_compare_basic by blast
  then have
    c2: "compare_faces (init None None False) sample_env ''camera.jpg'' ''card.jpg'' = Inr c2"
    by (simp add: compare_faces_def init_def)
  from comparison_confidence_range [OF c1] comparison_confidence_range [OF c2] c1 c2
  show ?thesis by blast
qed

section \<open>Symmetry of the comparison\<close>

text \<open>
  Claim C9. When the comparison of the images A and B succeeds, the comparison of B and A
  succeeds as well and yields the same score (the embedding distance, or the combined
  heuristic similarity), the same confidence and the same decision, under both variants.
  Over the reals the two scores are equal, not only close.
\<close>

theorem compare_faces_symmetric:
  assumes "compare_faces s e a b = Inr c"
  shows "\<exists>c'. compare_faces s e b a = Inr c'
           \<and> face_distance c' = face_distance c
           \<and> similarity_score c' = similarity_score c
           \<and> confidence c' = confidence c
           \<and> is_match c' = is_match c"
proof (cases "FACE_RECOGNITION_AVAILABLE s")
  case True
  from compare_faces_inv [OF True assms] obtain e1 l1 e2 l2 d where
    x: "extract_face_encoding s e a = Inr (EncodingResult e1 l1)"
       "extract_face_encoding s e b = Inr (EncodingResult e2 l2)"
       "fr_face_distance e1 e2 = Inr d"
    by blast
  have y: "fr_face_distance e2 e1 = Inr d" using x(3) by (simp add: fr_face_distance_sym)
  from compare_faces_value [OF True x] assms
       compare_faces_value [OF True x(2) x(1) y]
  show ?thesis by auto
next
  case False
  with assms have b: "compare_faces_basic e a b = Inr c" by (simp add: compare_faces_def)
  from compare_faces_basic_inv [OF b] obtain f1 l1 f2 l2 hc where
    x: "extract_face_features e a = Inr (FeaturesResult f1 l1)"
       "extract_face_features e b = Inr (FeaturesResult f2 l2)"
       "compareHist_correl (histogram f1) (histogram f2) = Inr hc"
       "max (face_area f1) (face_area f2) \<noteq> 0"
    by blast
  have y: "compareHist_correl (histogram f2) (histogram f1) = Inr hc"
          "max (face_area f2) (face_area f1) \<noteq> 0"
    using x(3,4) by (simp_all add: compareHist_correl_sym max.commute)
  from compare_faces_basic_value [OF x] b
       compare_faces_basic_value [OF x(2) x(1) y]
  have "\<exists>c'. compare_faces_basic e b a = Inr c'
           \<and> face_distance c' = face_distance c
           \<and> similarity_score c' = similarity_score c
           \<and> confidence c' = confidence c
           \<and> is_match c' = is_match c"
    by (auto simp: spec_combined_similarity_sym)
  with False show ?thesis by (simp add: compare_faces_def)
qed

theorem compare_faces_symmetric_witness:
  "(\<exists>c c'. compare_faces (init None None True) sample_env ''camera.jpg'' ''card.jpg'' = Inr c
         \<and> compare_faces (init None None True) sample_env ''card.jpg'' ''camera.jpg'' = Inr c'
         \<and> face_distance c' = face_distance c \<and> confidence c' = confidence c)
   \<and> (\<exists>c c'. compare_faces (init None None False) sample_env ''camera.jpg'' ''card.jpg'' = Inr c
         \<and> compare_faces (init None None False) sample_env ''card.jpg'' ''camera.jpg'' = Inr c'
         \<and> similarity_score c' = similarity_score c \<and> confidence c' = confidence c)"
proof -
  obtain c1 where
    c1: "compare_faces (init None None True) sample_env ''camera.jpg'' ''card.jpg'' = Inr c1"
    using sample_compare_embedding by blast
  obtain c2 where "compare_faces_basic sample_env ''camera.jpg'' ''card.jpg'' = Inr c2"
    using sample_compare_basic by blast
  then have
    c2: "compare_faces (init None None False) sample_env ''camera.jpg'' ''card.jpg'' = Inr c2"
    by (simp add: compare_faces_def init_def)
  from compare_faces_symmetric [OF c1] compare_faces_symmetric [OF c2] c1 c2
  show ?thesis by blast
qed

section \<open>The quality check\<close>


section \<open>Face cardinality\<close>

lemma extract_face_encoding_cardinality:
  assumes "FACE_RECOGNITION_AVAILABLE s" and "path_exists e p"
    and "load_image_file e p = Inr img"
  shows "(length (face_locations img (model s)) = 0 \<longrightarrow>
            extract_face_encoding s e p = Inl no_face_failure)
       \<and> (length (face_locations img (model s)) > 1 \<longrightarrow>
            extract_face_encoding s e p
              = Inl (multiple_faces_failure (length (face_locations img (model s)))))"
  using assms by (simp add: extract_face_encoding_def detect_faces_dlib_def Let_def)

lemma extract_face_features_cardinality:
  assumes "path_exists e p" and "imread e p = Some img"
  shows "(detectMultiScale img = RectArray [] \<longrightarrow>
            extract_face_features e p = Inl no_face_failure)
       \<and> (detectMultiScale img = RectArray rs \<and> length rs > 1 \<longrightarrow>
            extract_face_features e p = Inl (multiple_faces_failure (length rs)))
       \<and> (detectMultiScale img = EmptyTuple \<longrightarrow>
            extract_face_features e p
              = Inl (except_failure ''Face detection failed: '' ''OPENCV_DETECTION_ERROR''
                       AttributeError))"
  using assms by (auto simp: extract_face_features_def detect_faces_opencv_def Let_def)

text \<open>
  Claim C3. The extraction is to fail with \<open>NO_FACE_DETECTED\<close> when the locator finds no face
  and with \<open>MULTIPLE_FACES_DETECTED\<close> when it finds two or more, whichever variant is active.
  The two lemmas above give this for the embedding variant and, in the heuristic variant, for
  two or more faces. For no face the heuristic variant does otherwise: on a readable image in
  which the cascade detects nothing, \<open>detect_faces_opencv\<close> fails on the empty tuple and the
  extraction returns \<open>OPENCV_DETECTION_ERROR\<close>, where the embedding variant returns
  \<open>NO_FACE_DETECTED\<close> for the same file.
\<close>

theorem extract_face_features_no_face_tuple:
  "imread sample_env ''landscape.jpg'' \<noteq> None
   \<and> map_option detectMultiScale (imread sample_env ''landscape.jpg'') = Some EmptyTuple
   \<and> map_sum error_code (\<lambda>r. ())
        (extract_face_encoding (init None None False) sample_env ''landscape.jpg'')
       = Inl ''OPENCV_DETECTION_ERROR''
   \<and> map_sum error_code (\<lambda>r. ())
        (extract_face_encoding (init None None True) sample_env ''landscape.jpg'')
       = Inl ''NO_FACE_DETECTED''"
  by (simp add: extract_face_encoding_def extract_face_features_def detect_faces_opencv_def
      detect_faces_dlib_def Let_def sample_defs except_failure_def no_face_failure_def)

section \<open>Recommendation tiers\<close>

lemma verify_identity_success_cases:
  assumes "map_of (verify_identity s e cam idc sd) ''success'' = Some (PBool True)"
  shows "(FACE_RECOGNITION_AVAILABLE s \<and> (\<exists>c. compare_faces s e cam idc = Inr c))
       \<or> (\<not> FACE_RECOGNITION_AVAILABLE s
            \<and> (\<exists>c sc b. compare_faces_basic e cam idc = Inr c
                      \<and> similarity_score c = Some sc \<and> breakdown c = Some b))"
  using assms
  by (auto simp: verify_identity_def fallback_verify_identity_def verification_failed_def
      verification_error_def split: if_splits sum.splits option.splits)

lemma sample_verify_embedding:
  "map_of (verify_identity (init None None True) sample_env ''camera.jpg'' ''card.jpg'' None)
     ''success'' = Some (PBool True)"
  using sample_compare_embedding
  by (auto simp: verify_identity_def init_def)

lemma sample_verify_basic:
  "map_of (verify_identity (init None None False) sample_env ''camera.jpg'' ''card.jpg'' None)
     ''success'' = Some (PBool True)"
  using sample_compare_basic
  by (auto simp: verify_identity_def fallback_verify_identity_def init_def)

text \<open>
  Claim C5. Every successful verification record carries the recommendation that its
  confidence selects. Embedding variant: at least 80 gives the high tier, at least 60 and
  below 80 the moderate tier, below 60 the low tier with manual review recommended. Heuristic
  variant: at least 70 gives the moderate tier (basic method), at least 50 and below 70 the
  low tier (basic method), below 50 the very low tier with manual review required. The labels
  are the strings of the source, which begin with a capital letter and use a plain hyphen.
\<close>

theorem verify_identity_recommendation:
  assumes "map_of (verify_identity s e cam idc sd) ''success'' = Some (PBool True)"
  shows "\<exists>c. map_of (verify_identity s e cam idc sd) ''confidence'' = Some (PNum c)
     \<and> map_of (verify_identity s e cam idc sd) ''recommendation'' = Some (PStr
         (if FACE_RECOGNITION_AVAILABLE s then
            (if c \<ge> 80 then ''High confidence match''
             else if c \<ge> 60 then ''Moderate confidence match''
             else ''Low confidence - manual review recommended'')
          else
            (if c \<ge> 70 then ''Moderate confidence match (basic method)''
             else if c \<ge> 50 then ''Low confidence match (basic method)''
             else ''Very low confidence - manual review required'')))"
  using verify_identity_success_cases [OF assms]
  by (auto simp: verify_identity_def fallback_verify_identity_def recommendation_def
      fallback_recommendation_def)

theorem verify_identity_recommendation_witness:
  "map_of (verify_identity (init None None True) sample_env ''camera.jpg'' ''card.jpg'' None)
     ''recommendation'' = Some (PStr ''High confidence match'')
   \<and> map_of (verify_identity (init None None False) sample_env ''camera.jpg'' ''card.jpg'' None)
     ''recommendation'' = Some (PStr ''Moderate confidence match (basic method)'')"
proof -
  have a: "map_of (verify_identity (init None None True) sample_env ''camera.jpg'' ''card.jpg''
      None) ''confidence'' = Some (PNum (9531 / 100))"
    using sample_compare_embedding by (auto simp: verify_identity_def init_def)
  have b: "map_of (verify_identity (init None None False) sample_env ''camera.jpg'' ''card.jpg''
      None) ''confidence'' = Some (PNum (2123 / 25))"
    using sample_compare_basic
    by (auto simp: verify_identity_def fallback_verify_identity_def init_def)
  from verify_identity_recommendation [OF sample_verify_embedding] a
       verify_identity_recommendation [OF sample_verify_basic] b
  show ?thesis by (auto simp: init_def)
qed

section \<open>Which image failed\<close>

text \<open>
  Claim C7, as amended. When the extraction fails on the camera capture, the verification
  fails with the code of the extraction prefixed with \<open>CAMERA_IMAGE_\<close>; when it succeeds on
  the camera capture and fails on the document photo, the prefix is \<open>ID_CARD_IMAGE_\<close>.
\<close>

theorem verify_identity_error_prefix:
  "(extract_face_encoding s e cam = Inl f \<longrightarrow>
      map_of (verify_identity s e cam idc sd) ''error_code''
        = Some (PStr (''CAMERA_IMAGE_'' @ error_code f)))
   \<and> (extract_face_encoding s e cam = Inr r \<and> extract_face_encoding s e idc = Inl f \<longrightarrow>
      map_of (verify_identity s e cam idc sd) ''error_code''
        = Some (PStr (''ID_CARD_IMAGE_'' @ error_code f)))"
  by (cases "FACE_RECOGNITION_AVAILABLE s")
     (auto simp: verify_identity_def fallback_verify_identity_def compare_faces_def
        compare_faces_basic_def extract_face_encoding_def [of s] Let_def verification_failed_def
        camera_failure_def id_card_failure_def)

theorem verify_identity_error_prefix_witness:
  "map_of (verify_identity (init None None True) sample_env ''group.jpg'' ''card.jpg'' None)
     ''error_code'' = Some (PStr ''CAMERA_IMAGE_MULTIPLE_FACES_DETECTED'')
   \<and> map_of (verify_identity (init None None True) sample_env ''camera.jpg'' ''group.jpg'' None)
     ''error_code'' = Some (PStr ''ID_CARD_IMAGE_MULTIPLE_FACES_DETECTED'')"
  using verify_identity_error_prefix [of "init None None True" sample_env "''group.jpg''"
          "multiple_faces_failure 2" "''card.jpg''" None]
        verify_identity_error_prefix [of "init None None True" sample_env "''camera.jpg''"
          "multiple_faces_failure 2" "''group.jpg''" None
          "EncodingResult [3 / 64, 0] (100, 80, 200, 200)"]
  by (simp add: sample_encoding_group sample_encoding_camera multiple_faces_failure_def)

text \<open>
  The claim as it was stated names the prefix \<open>DOCUMENT_IMAGE_\<close>: a document photo with two
  faces gives \<open>ID_CARD_IMAGE_MULTIPLE_FACES_DETECTED\<close>.
\<close>

theorem document_prefix_counterexample:
  "extract_face_encoding (init None None True) sample_env ''group.jpg''
     = Inl (multiple_faces_failure 2)
   \<and> error_code (multiple_faces_failure 2) = ''MULTIPLE_FACES_DETECTED''
   \<and> map_of (verify_identity (init None None True) sample_env ''camera.jpg'' ''group.jpg'' None)
        ''error_code'' = Some (PStr ''ID_CARD_IMAGE_MULTIPLE_FACES_DETECTED'')
   \<and> map_of (verify_identity (init None None True) sample_env ''camera.jpg'' ''group.jpg'' None)
        ''error_code'' \<noteq> Some (PStr ''DOCUMENT_IMAGE_MULTIPLE_FACES_DETECTED'')"
  by (simp add: sample_encoding_group sample_encoding_camera multiple_faces_failure_def
      verify_identity_def compare_faces_def Let_def verification_failed_def id_card_failure_def)
     (simp add: init_def)

section \<open>The quality gate of the route\<close>

lemma verify_route_checked:
  assumes "camera_image_path d = Some cam" and "cam \<noteq> []"
    and "id_card_image_path d = Some idc" and "idc \<noteq> []"
    and "path_exists e cam" and "path_exists e idc"
  shows "quality_issues_of e cam idc \<noteq> [] \<Longrightarrow>
           verify_route avail e (Some d) =
             ((error_response [Lit ''Image quality issues detected''] ''POOR_IMAGE_QUALITY''
               @ [(''quality_issues'', PList (quality_issues_of e cam idc)),
                  (''suggestions'',
                     PList [PStr ''Ensure images are well-lit and clear'',
                            PStr ''Avoid blurry or low-resolution images'',
                            PStr ''Retake photos if necessary''])], 400),
              [ValidateImageQuality cam, ValidateImageQuality idc])"
    and "quality_issues_of e cam idc = [] \<Longrightarrow>
           snd (verify_route avail e (Some d)) =
             [ValidateImageQuality cam, ValidateImageQuality idc, VerifyIdentity cam idc]"
  using assms
  by (auto simp: verify_route_def Let_def quality_issues_of_def split: sum.splits)

lemma quality_issues_of_empty:
  "quality_issues_of e cam idc = [] \<longleftrightarrow>
     (\<exists>q1 q2. validate_image_quality e cam = Inr q1 \<and> validate_image_quality e idc = Inr q2)"
  by (auto simp: quality_issues_of_def split: sum.splits)

text \<open>
  Claim C6, as amended. For every request to the \<open>/verify\<close> route that names two existing
  files, the route runs \<open>validate_image_quality\<close> on both images before anything else. If
  either report is not valid, the route answers 400 with the code \<open>POOR_IMAGE_QUALITY\<close> and a
  list \<open>quality_issues\<close> that holds, for each image that failed, the report's message behind
  \<open>Camera image:\<close> or \<open>ID card image:\<close>, and it does not call \<open>verify_identity\<close>. If both
  reports are valid, \<open>verify_identity\<close> is called once, after the two checks.
\<close>

theorem verify_route_quality_gate:
  assumes "camera_image_path d = Some cam" and "cam \<noteq> []"
    and "id_card_image_path d = Some idc" and "idc \<noteq> []"
    and "path_exists e cam" and "path_exists e idc"
  shows "\<exists>resp calls.
           verify_route avail e (Some d)
             = (resp, [ValidateImageQuality cam, ValidateImageQuality idc] @ calls)
         \<and> (((\<exists>f. validate_image_quality e cam = Inl f)
               \<or> (\<exists>f. validate_image_quality e idc = Inl f)) \<longrightarrow>
              calls = [] \<and> snd resp = 400
              \<and> map_of (fst resp) ''error_code'' = Some (PStr ''POOR_IMAGE_QUALITY'')
              \<and> map_of (fst resp) ''quality_issues''
                  = Some (PList (quality_issues_of e cam idc)))
         \<and> (((\<exists>q. validate_image_quality e cam = Inr q)
               \<and> (\<exists>q. validate_image_quality e idc = Inr q)) \<longrightarrow>
              calls = [VerifyIdentity cam idc])"
proof (cases "quality_issues_of e cam idc = []")
  case True
  from verify_route_checked(2) [OF assms True, of avail]
  have "verify_route avail e (Some d)
          = (fst (verify_route avail e (Some d)),
             [ValidateImageQuality cam, ValidateImageQuality idc] @ [VerifyIdentity cam idc])"
    by (simp add: prod_eq_iff)
  moreover from True have "\<not> ((\<exists>f. validate_image_quality e cam = Inl f)
               \<or> (\<exists>f. validate_image_quality e idc = Inl f))"
    by (auto simp: quality_issues_of_empty)
  ultimately show ?thesis by blast
next
  case False
  then have "\<not> ((\<exists>q. validate_image_quality e cam = Inr q)
               \<and> (\<exists>q. validate_image_quality e idc = Inr q))"
    by (auto simp: quality_issues_of_empty)
  with verify_route_checked(1) [OF assms False, of avail] show ?thesis
    by (auto simp: error_response_def)
qed

theorem verify_route_quality_gate_witness:
  "\<exists>resp calls.
     verify_route True sample_env (Some (sample_request ''dark.jpg'' ''card.jpg''))
       = (resp, [ValidateImageQuality ''dark.jpg'', ValidateImageQuality ''card.jpg''] @ calls)
     \<and> calls = [] \<and> snd resp = 400
     \<and> map_of (fst resp) ''error_code'' = Some (PStr ''POOR_IMAGE_QUALITY'')"
proof -
  have h: "camera_image_path (sample_request ''dark.jpg'' ''card.jpg'') = Some ''dark.jpg''"
      "''dark.jpg'' \<noteq> []"
      "id_card_image_path (sample_request ''dark.jpg'' ''card.jpg'') = Some ''card.jpg''"
      "''card.jpg'' \<noteq> []"
      "path_exists sample_env ''dark.jpg''" "path_exists sample_env ''card.jpg''"
    by (simp_all add: sample_request_def sample_defs)
  from verify_route_quality_gate [OF h, of True] sample_quality_dark
  show ?thesis by blast
qed

text \<open>
  The claim as it was stated places the gate in \<open>verify_identity\<close> and has the call fail with
  the quality error of the image. The service's \<open>verify_identity\<close> runs no quality check: it
  verifies a capture that \<open>validate_image_quality\<close> rejects as too dark. And the route answers
  with \<open>POOR_IMAGE_QUALITY\<close>, not with \<open>TOO_DARK\<close>.
\<close>

theorem verify_identity_no_quality_gate_counterexample:
  "map_sum error_code (\<lambda>q. ()) (validate_image_quality sample_env ''dark.jpg'') = Inl ''TOO_DARK''
   \<and> map_of (verify_identity (init None None True) sample_env ''dark.jpg'' ''card.jpg'' None)
        ''success'' = Some (PBool True)
   \<and> map_of (fst (fst (verify_route True sample_env
                          (Some (sample_request ''dark.jpg'' ''card.jpg''))))) ''error_code''
       = Some (PStr ''POOR_IMAGE_QUALITY'')"
proof -
  have "map_of (verify_identity (init None None True) sample_env ''dark.jpg'' ''card.jpg'' None)
        ''success'' = Some (PBool True)"
    using compare_faces_value [OF _ sample_encoding_dark sample_encoding_card sample_distance]
    by (auto simp: verify_identity_def init_def)
  moreover have "map_of (fst (fst (verify_route True sample_env
                          (Some (sample_request ''dark.jpg'' ''card.jpg''))))) ''error_code''
       = Some (PStr ''POOR_IMAGE_QUALITY'')"
    by (simp add: verify_route_def sample_request_def Let_def validate_image_quality_def
        sample_defs error_response_def)
  ultimately show ?thesis by (simp add: sample_quality_dark)
qed

section \<open>The shape of the verification record\<close>

lemma fallback_success_response:
  assumes "compare_faces_basic e cam idc = Inr c"
    and "similarity_score c = Some sc" and "breakdown c = Some b"
  shows "map_of (fallback_verify_identity e cam idc sd) ''success'' = Some (PBool True)"
    and "map_of (fallback_verify_identity e cam idc sd) ''similarity_score'' = Some (PNum sc)"
    and "map_of (fallback_verify_identity e cam idc sd) ''face_distance'' = None"
    and "getitem (fallback_verify_identity e cam idc sd) ''success'' = Inr (PBool True)"
    and "success_response (fallback_verify_identity e cam idc sd) sd' cam idc cq iq
           = Inl (KeyError ''face_distance'')"
  using assms
  by (simp_all add: fallback_verify_identity_def getitem_def success_response_def bind_exn_def)

lemma route_fallback_key_error:
  assumes "compare_faces_basic e cam idc = Inr c"
    and "similarity_score c = Some sc" and "breakdown c = Some b"
    and "camera_image_path d = Some cam" and "cam \<noteq> []"
    and "id_card_image_path d = Some idc" and "idc \<noteq> []"
    and "path_exists e cam" and "path_exists e idc"
    and "validate_image_quality e cam = Inr q1" and "validate_image_quality e idc = Inr q2"
  shows "fst (verify_route False e (Some d))
           = (error_response [Lit ''Identity verification failed: '',
                              StrExn (KeyError ''face_distance'')]
                ''VERIFICATION_EXCEPTION'', 500)"
proof -
  have v: "verify_identity (route_service False) e cam idc sd
             = fallback_verify_identity e cam idc sd" for sd
    by (simp add: verify_identity_def route_service_def init_def)
  show ?thesis
    using assms(4-11)
    by (simp add: verify_route_def Let_def v
        fallback_success_response(4,5) [OF assms(1-3)])
qed

text \<open>
  Claim C10. The two variants return records of different shapes. A successful record of the
  heuristic fallback has the key \<open>similarity_score\<close> and no key \<open>face_distance\<close>; a successful
  record of the embedding variant has \<open>face_distance\<close>. So the subscript \<open>["face_distance"]\<close>
  raises \<open>KeyError\<close> on every successful fallback record, and the \<open>/verify\<close> route, which
  subscripts the record so on its success path, answers 500 with \<open>VERIFICATION_EXCEPTION\<close>
  whenever the fallback verifies a pair of images that passed the quality checks.
\<close>

theorem fallback_record_lacks_face_distance:
  assumes "map_of (verify_identity s e cam idc sd) ''success'' = Some (PBool True)"
  shows "(\<not> FACE_RECOGNITION_AVAILABLE s \<longrightarrow>
            map_of (verify_identity s e cam idc sd) ''similarity_score'' \<noteq> None
          \<and> map_of (verify_identity s e cam idc sd) ''face_distance'' = None
          \<and> getitem (verify_identity s e cam idc sd) ''face_distance''
              = Inl (KeyError ''face_distance'')
          \<and> (camera_image_path d = Some cam \<and> cam \<noteq> []
              \<and> id_card_image_path d = Some idc \<and> idc \<noteq> []
              \<and> path_exists e cam \<and> path_exists e idc
              \<and> validate_image_quality e cam = Inr q1
              \<and> validate_image_quality e idc = Inr q2 \<longrightarrow>
                fst (verify_route False e (Some d))
                  = (error_response [Lit ''Identity verification failed: '',
                                     StrExn (KeyError ''face_distance'')]
                       ''VERIFICATION_EXCEPTION'', 500)))
     \<and> (FACE_RECOGNITION_AVAILABLE s \<longrightarrow>
            map_of (verify_identity s e cam idc sd) ''face_distance'' \<noteq> None
          \<and> map_of (verify_identity s e cam idc sd) ''similarity_score'' = None)"
proof (cases "FACE_RECOGNITION_AVAILABLE s")
  case True
  with verify_identity_success_cases [OF assms] obtain c where
    "compare_faces s e cam idc = Inr c" by blast
  with True show ?thesis by (simp add: verify_identity_def)
next
  case False
  with verify_identity_success_cases [OF assms] obtain c sc b where
    x: "compare_faces_basic e cam idc = Inr c" "similarity_score c = Some sc"
       "breakdown c = Some b"
    by blast
  have v: "verify_identity s e cam idc sd = fallback_verify_identity e cam idc sd"
    using False by (simp add: verify_identity_def)
  from False show ?thesis
    unfolding v
    using fallback_success_response(2,3) [OF x, of sd] route_fallback_key_error [OF x, of d]
    by (simp add: getitem_def)
qed

theorem fallback_record_lacks_face_distance_witness:
  "map_of (verify_identity (init None None False) sample_env ''camera.jpg'' ''card.jpg'' None)
     ''face_distance'' = None
   \<and> map_of (verify_identity (init None None True) sample_env ''camera.jpg'' ''card.jpg'' None)
     ''face_distance'' \<noteq> None
   \<and> fst (verify_route False sample_env (Some (sample_request ''camera.jpg'' ''card.jpg'')))
       = (error_response [Lit ''Identity verification failed: '',
                          StrExn (KeyError ''face_distance'')]
            ''VERIFICATION_EXCEPTION'', 500)"
proof -
  obtain q1 q2 where q: "validate_image_quality sample_env ''camera.jpg'' = Inr q1"
      "validate_image_quality sample_env ''card.jpg'' = Inr q2"
    using sample_quality_camera sample_quality_card by blast
  have h: "camera_image_path (sample_request ''camera.jpg'' ''card.jpg'') = Some ''camera.jpg''"
      "''camera.jpg'' \<noteq> []"
      "id_card_image_path (sample_request ''camera.jpg'' ''card.jpg'') = Some ''card.jpg''"
      "''card.jpg'' \<noteq> []"
      "path_exists sample_env ''camera.jpg''" "path_exists sample_env ''card.jpg''"
    by (simp_all add: sample_request_def sample_defs)
  have a: "\<not> FACE_RECOGNITION_AVAILABLE (init None None False)"
    and b: "FACE_RECOGNITION_AVAILABLE (init None None True)"
    by (simp_all add: init_def)
  from fallback_record_lacks_face_distance [OF sample_verify_basic,
         of "sample_request ''camera.jpg'' ''card.jpg''" q1 q2]
       fallback_record_lacks_face_distance [OF sample_verify_embedding]
       a b h q
  show ?thesis by blast
qed

section \<open>Serialising the embedding record\<close>

text \<open>
  With the embedding variant the success path of the route does not answer 200 either: the
  record's \<open>is_match\<close> is a \<open>numpy.bool_\<close>, \<open>jsonify\<close> raises \<open>TypeError\<close> on it, and the
  handler of the route answers 500.
\<close>

lemma embedding_success_response:
  assumes "FACE_RECOGNITION_AVAILABLE s" and "compare_faces s e cam idc = Inr c"
  shows "getitem (verify_identity s e cam idc sd) ''success'' = Inr (PBool True)"
    and "success_response (verify_identity s e cam idc sd) sd' cam idc cq iq = Inl TypeError"
  using assms
  by (simp_all add: verify_identity_def success_response_def getitem_def subscript_def
      bind_exn_def jsonify_def split: option.splits)

lemma route_embedding_type_error:
  assumes "compare_faces (route_service True) e cam idc = Inr c"
    and "camera_image_path d = Some cam" and "cam \<noteq> []"
    and "id_card_image_path d = Some idc" and "idc \<noteq> []"
    and "path_exists e cam" and "path_exists e idc"
    and "validate_image_quality e cam = Inr q1" and "validate_image_quality e idc = Inr q2"
  shows "fst (verify_route True e (Some d))
           = (error_response [Lit ''Identity verification failed: '', StrExn TypeError]
                ''VERIFICATION_EXCEPTION'', 500)"
proof -
  have a: "FACE_RECOGNITION_AVAILABLE (route_service True)"
    by (simp add: route_service_def init_def)
  show ?thesis
    using assms(2-9)
    by (simp add: verify_route_def Let_def embedding_success_response [OF a assms(1)])
qed

lemma sample_route_embedding:
  "fst (verify_route True sample_env (Some (sample_request ''camera.jpg'' ''card.jpg'')))
     = (error_response [Lit ''Identity verification failed: '', StrExn TypeError]
          ''VERIFICATION_EXCEPTION'', 500)"
proof -
  have s: "route_service True = init None None True"
    by (simp add: route_service_def init_def FACE_RECOGNITION_TOLERANCE_def
        FACE_DETECTION_MODEL_def)
  obtain c where
    c: "compare_faces (route_service True) sample_env ''camera.jpg'' ''card.jpg'' = Inr c"
    unfolding s using sample_compare_embedding by blast
  obtain q1 q2 where q: "validate_image_quality sample_env ''camera.jpg'' = Inr q1"
      "validate_image_quality sample_env ''card.jpg'' = Inr q2"
    using sample_quality_camera sample_quality_card by blast
  have h: "camera_image_path (sample_request ''camera.jpg'' ''card.jpg'') = Some ''camera.jpg''"
      "''camera.jpg'' \<noteq> []"
      "id_card_image_path (sample_request ''camera.jpg'' ''card.jpg'') = Some ''card.jpg''"
      "''card.jpg'' \<noteq> []"
      "path_exists sample_env ''camera.jpg''" "path_exists sample_env ''card.jpg''"
    by (simp_all add: sample_request_def sample_defs)
  from route_embedding_type_error [OF c h q] show ?thesis .
qed

end
